theory Spec2Isabelle
  imports Main "HOL-Library.Word"
begin

unbundle bit_operations_syntax

section \<open>Xen event channels: the data of drivers/xen/events.c\<close>

text \<open>
  An \<open>unsigned long\<close> is a 64-bit word (\<open>BITS_PER_LONG = 64\<close>). A bitmap
  (\<open>unsigned long *\<close>) is an array of such words, indexed by word number; a C array
  is a function from the index, and the functions below only say what the code does for
  indices inside the array (outside it C leaves the access undefined).
\<close>

type_synonym ulong = "64 word"

type_synonym bitmap = "nat \<Rightarrow> ulong"

definition BITS_PER_LONG :: nat where
  "BITS_PER_LONG = 64"

definition test_bit_bm :: "nat \<Rightarrow> bitmap \<Rightarrow> bool" where
  "test_bit_bm nr addr = bit (addr (nr div BITS_PER_LONG)) (nr mod BITS_PER_LONG)"

definition set_bit_bm :: "nat \<Rightarrow> bitmap \<Rightarrow> bitmap" where
  "set_bit_bm nr addr =
     addr (nr div BITS_PER_LONG :=
             addr (nr div BITS_PER_LONG) OR push_bit (nr mod BITS_PER_LONG) 1)"

definition clear_bit_bm :: "nat \<Rightarrow> bitmap \<Rightarrow> bitmap" where
  "clear_bit_bm nr addr =
     addr (nr div BITS_PER_LONG :=
             addr (nr div BITS_PER_LONG) AND NOT (push_bit (nr mod BITS_PER_LONG) 1))"

datatype xen_irq_type = IRQT_UNBOUND | IRQT_PIRQ | IRQT_VIRQ | IRQT_IPI | IRQT_EVTCHN

text \<open>
  \<open>struct irq_info\<close>. The members of the union \<open>u\<close> are separate fields here: every
  constructor below zero-fills what it does not name, as the compound literal does, and
  the code reads a member only under the matching \<open>type\<close>. The widths of the C fields
  (\<open>unsigned short\<close>, \<open>unsigned char\<close>) are written out as \<open>mod\<close> where a value is
  stored.
\<close>

record irq_info_s =
  info_type :: xen_irq_type
  info_evtchn :: nat
  info_cpu :: nat
  u_virq :: nat
  u_ipi :: nat
  u_pirq_gsi :: nat
  u_pirq_vector :: nat
  u_pirq_flags :: nat
  u_pirq_domid :: nat

definition PIRQ_SHAREABLE :: nat where
  "PIRQ_SHAREABLE = 2"

definition DOMID_SELF :: nat where
  "DOMID_SELF = 32752"

definition ushort :: "nat \<Rightarrow> nat" where
  "ushort n = n mod 65536"

definition uchar :: "nat \<Rightarrow> nat" where
  "uchar n = n mod 256"

record vcpu_info =
  evtchn_upcall_pending :: nat
  evtchn_upcall_mask :: nat
  evtchn_pending_sel :: ulong

datatype irq_chip = no_irq_chip | xen_dynamic_chip | xen_percpu_chip | xen_pirq_chip
  | other_chip

text \<open>
  What the code reads of a \<open>struct irq_desc\<close>: the chip, whether an action is
  registered, and the two status bits \<open>IRQ_DISABLED\<close> and \<open>IRQ_PENDING\<close>.
\<close>

record irq_desc =
  chip :: irq_chip
  has_action :: bool
  action_no_suspend :: bool
  status_disabled :: bool
  status_pending :: bool

datatype hcall =
    EVTCHNOP_bind_interdomain nat nat
  | EVTCHNOP_bind_virq nat nat
  | EVTCHNOP_bind_ipi nat
  | EVTCHNOP_bind_pirq nat nat
  | EVTCHNOP_bind_vcpu nat nat
  | EVTCHNOP_close nat
  | EVTCHNOP_unmask nat
  | PHYSDEVOP_eoi nat
  | PHYSDEVOP_irq_status_query nat
  | PHYSDEVOP_pirq_eoi_gmfn
  | SCHEDOP_poll nat nat

text \<open>
  What the subsystem does to its collaborators, in order: the hypercalls it issues and the
  interrupts it hands to \<open>generic_handle_irq_desc\<close>.
\<close>

datatype event = Hypercall hcall | Handle_irq nat

datatype error = BUG | PANIC | FAULT

text \<open>
  The global and per-CPU variables of the file, the two shared bitmaps of
  \<open>struct shared_info\<close>, the per-CPU \<open>xen_vcpu\<close>, the descriptors of the interrupt
  core, and whether interrupts are disabled on the running CPU. Per-CPU variables are
  functions of the CPU number. The constants of the headers that are not part of this
  file (\<open>NR_EVENT_CHANNELS\<close>, \<open>NR_VIRQS\<close>, \<open>XEN_NR_IPIS\<close>, the possible CPUs,
  \<open>nr_irqs\<close> and the value of \<open>get_nr_hw_irqs()\<close>) are fields that no function
  changes.
\<close>

record xen_state =
  evtchn_pending :: bitmap
  evtchn_mask :: bitmap
  xen_vcpu :: "nat \<Rightarrow> vcpu_info"
  cpu_evtchn_mask :: "nat \<Rightarrow> bitmap"
  evtchn_to_irq :: "nat \<Rightarrow> int"
  irq_info :: "nat \<Rightarrow> irq_info_s"
  virq_to_irq :: "nat \<Rightarrow> nat \<Rightarrow> int"
  ipi_to_irq :: "nat \<Rightarrow> nat \<Rightarrow> int"
  pirq_eoi_does_unmask :: bool
  pirq_needs_eoi_bits :: bitmap
  xed_nesting_count :: "nat \<Rightarrow> nat"
  current_word_idx :: "nat \<Rightarrow> nat"
  current_bit_idx :: "nat \<Rightarrow> nat"
  irq_descs :: "nat \<Rightarrow> irq_desc option"
  nr_irqs :: nat
  nr_hw_irqs :: nat
  nr_event_channels :: nat
  nr_virqs :: nat
  xen_nr_ipis :: nat
  possible_cpus :: "nat list"
  irqs_disabled :: bool
  trace :: "event list"

text \<open>
  The collaborators: the hypervisor answers a hypercall with a return code and the value
  it writes back into the argument structure (the port, the status flags); the answer may
  depend on the calls made so far. The interrupt core runs the registered handler, which
  may do anything to the state, registers a handler, and may fail to allocate a
  descriptor.
\<close>

record ext =
  hv :: "event list \<Rightarrow> hcall \<Rightarrow> int \<times> nat"
  handle_irq :: "nat \<Rightarrow> xen_state \<Rightarrow> xen_state"
  request_irq :: "nat \<Rightarrow> nat \<Rightarrow> xen_state \<Rightarrow> int \<times> xen_state"
  desc_alloc_ok :: "nat \<Rightarrow> bool"

definition hypercall :: "ext \<Rightarrow> hcall \<Rightarrow> xen_state \<Rightarrow> (int \<times> nat) \<times> xen_state" where
  "hypercall x op s = (hv x (trace s) op, s\<lparr>trace := trace s @ [Hypercall op]\<rparr>)"

subsection \<open>Constructors and accessors of the packed IRQ information\<close>

definition VALID_EVTCHN :: "nat \<Rightarrow> bool" where
  "VALID_EVTCHN chn = (chn \<noteq> 0)"

definition zero_info :: irq_info_s where
  "zero_info = \<lparr>info_type = IRQT_UNBOUND, info_evtchn = 0, info_cpu = 0, u_virq = 0,
     u_ipi = 0, u_pirq_gsi = 0, u_pirq_vector = 0, u_pirq_flags = 0, u_pirq_domid = 0\<rparr>"

definition mk_unbound_info :: irq_info_s where
  "mk_unbound_info = zero_info\<lparr>info_type := IRQT_UNBOUND\<rparr>"

definition mk_evtchn_info :: "nat \<Rightarrow> irq_info_s" where
  "mk_evtchn_info evtchn =
     zero_info\<lparr>info_type := IRQT_EVTCHN, info_evtchn := ushort evtchn, info_cpu := 0\<rparr>"

definition mk_ipi_info :: "nat \<Rightarrow> nat \<Rightarrow> irq_info_s" where
  "mk_ipi_info evtchn ipi =
     zero_info\<lparr>info_type := IRQT_IPI, info_evtchn := ushort evtchn, info_cpu := 0,
       u_ipi := ipi\<rparr>"

definition mk_virq_info :: "nat \<Rightarrow> nat \<Rightarrow> irq_info_s" where
  "mk_virq_info evtchn virq =
     zero_info\<lparr>info_type := IRQT_VIRQ, info_evtchn := ushort evtchn, info_cpu := 0,
       u_virq := ushort virq\<rparr>"

definition mk_pirq_info :: "nat \<Rightarrow> nat \<Rightarrow> nat \<Rightarrow> irq_info_s" where
  "mk_pirq_info evtchn gsi vector =
     zero_info\<lparr>info_type := IRQT_PIRQ, info_evtchn := ushort evtchn, info_cpu := 0,
       u_pirq_gsi := ushort gsi, u_pirq_vector := uchar (ushort vector),
       u_pirq_domid := DOMID_SELF\<rparr>"

definition info_for_irq :: "xen_state \<Rightarrow> nat \<Rightarrow> irq_info_s" where
  "info_for_irq s irq = irq_info s irq"

definition evtchn_from_irq :: "xen_state \<Rightarrow> nat \<Rightarrow> nat" where
  "evtchn_from_irq s irq = info_evtchn (info_for_irq s irq)"

definition irq_from_evtchn :: "xen_state \<Rightarrow> nat \<Rightarrow> int" where
  "irq_from_evtchn s evtchn = evtchn_to_irq s evtchn"

definition ipi_from_irq :: "xen_state \<Rightarrow> nat \<Rightarrow> error + nat" where
  "ipi_from_irq s irq =
     (if info_type (info_for_irq s irq) \<noteq> IRQT_IPI then Inl BUG
      else Inr (u_ipi (info_for_irq s irq)))"

definition virq_from_irq :: "xen_state \<Rightarrow> nat \<Rightarrow> error + nat" where
  "virq_from_irq s irq =
     (if info_type (info_for_irq s irq) \<noteq> IRQT_VIRQ then Inl BUG
      else Inr (u_virq (info_for_irq s irq)))"

definition gsi_from_irq :: "xen_state \<Rightarrow> nat \<Rightarrow> error + nat" where
  "gsi_from_irq s irq =
     (if info_type (info_for_irq s irq) \<noteq> IRQT_PIRQ then Inl BUG
      else Inr (u_pirq_gsi (info_for_irq s irq)))"

definition type_from_irq :: "xen_state \<Rightarrow> nat \<Rightarrow> xen_irq_type" where
  "type_from_irq s irq = info_type (info_for_irq s irq)"

definition cpu_from_irq :: "xen_state \<Rightarrow> nat \<Rightarrow> nat" where
  "cpu_from_irq s irq = info_cpu (info_for_irq s irq)"

text \<open>
  \<open>evtchn_to_irq\<close> holds \<open>-1\<close> or an IRQ number; the code indexes \<open>irq_info\<close> with
  whatever it finds that is not \<open>-1\<close>.
\<close>

definition cpu_from_evtchn :: "xen_state \<Rightarrow> nat \<Rightarrow> nat" where
  "cpu_from_evtchn s evtchn =
     (let irq = evtchn_to_irq s evtchn
      in if irq \<noteq> - 1 then cpu_from_irq s (nat irq) else 0)"

definition pirq_needs_eoi :: "xen_state \<Rightarrow> nat \<Rightarrow> error + bool" where
  "pirq_needs_eoi s irq =
     (if info_type (info_for_irq s irq) \<noteq> IRQT_PIRQ then Inl BUG
      else Inr (test_bit_bm (u_pirq_gsi (info_for_irq s irq)) (pirq_needs_eoi_bits s)))"

definition active_evtchns :: "nat \<Rightarrow> xen_state \<Rightarrow> nat \<Rightarrow> ulong" where
  "active_evtchns cpu sh idx =
     evtchn_pending sh idx AND cpu_evtchn_mask sh cpu idx AND NOT (evtchn_mask sh idx)"

text \<open>
  \<open>bind_evtchn_to_cpu\<close>: the copy of the affinity mask into the descriptor
  (\<open>CONFIG_SMP\<close>) belongs to the interrupt core and is left out.
\<close>

definition bind_evtchn_to_cpu :: "nat \<Rightarrow> nat \<Rightarrow> xen_state \<Rightarrow> error + xen_state" where
  "bind_evtchn_to_cpu chn cpu s =
     (let irq = evtchn_to_irq s chn
      in if irq = - 1 then Inl BUG
         else
           let old = cpu_from_irq s (nat irq);
               m1 = (cpu_evtchn_mask s) (old := clear_bit_bm chn (cpu_evtchn_mask s old));
               m2 = m1 (cpu := set_bit_bm chn (m1 cpu))
           in Inr (s\<lparr>cpu_evtchn_mask := m2,
                     irq_info := (irq_info s)
                       (nat irq := (irq_info s (nat irq))\<lparr>info_cpu := ushort cpu\<rparr>)\<rparr>))"

definition clear_evtchn :: "nat \<Rightarrow> xen_state \<Rightarrow> xen_state" where
  "clear_evtchn port s = s\<lparr>evtchn_pending := clear_bit_bm port (evtchn_pending s)\<rparr>"

definition set_evtchn :: "nat \<Rightarrow> xen_state \<Rightarrow> xen_state" where
  "set_evtchn port s = s\<lparr>evtchn_pending := set_bit_bm port (evtchn_pending s)\<rparr>"

definition test_evtchn :: "nat \<Rightarrow> xen_state \<Rightarrow> bool" where
  "test_evtchn port s = test_bit_bm port (evtchn_pending s)"

definition mask_evtchn :: "nat \<Rightarrow> xen_state \<Rightarrow> xen_state" where
  "mask_evtchn port s = s\<lparr>evtchn_mask := set_bit_bm port (evtchn_mask s)\<rparr>"

definition mask_irq :: "nat \<Rightarrow> xen_state \<Rightarrow> xen_state" where
  "mask_irq irq s =
     (let evtchn = evtchn_from_irq s irq
      in if VALID_EVTCHN evtchn then mask_evtchn evtchn s else s)"

text \<open>
  \<open>unmask_evtchn\<close> on CPU \<open>cpu\<close> (the value of \<open>get_cpu()\<close>). The selector is one
  word: bit \<open>port / BITS_PER_LONG\<close> of it is tested and set, and the flag is raised only
  when the port is pending and that bit was clear before.
\<close>

definition unmask_evtchn :: "ext \<Rightarrow> nat \<Rightarrow> nat \<Rightarrow> xen_state \<Rightarrow> error + xen_state" where
  "unmask_evtchn x cpu port s =
     (if \<not> irqs_disabled s then Inl BUG
      else if cpu \<noteq> cpu_from_evtchn s port
      then Inr (snd (hypercall x (EVTCHNOP_unmask port) s))
      else
        let s1 = s\<lparr>evtchn_mask := clear_bit_bm port (evtchn_mask s)\<rparr>;
            v = xen_vcpu s1 cpu
        in if test_bit_bm port (evtchn_pending s1)
           then
             let was_set = bit (evtchn_pending_sel v) (port div BITS_PER_LONG);
                 v1 = v\<lparr>evtchn_pending_sel :=
                          evtchn_pending_sel v OR push_bit (port div BITS_PER_LONG) 1\<rparr>;
                 v2 = (if \<not> was_set then v1\<lparr>evtchn_upcall_pending := 1\<rparr> else v1)
             in Inr (s1\<lparr>xen_vcpu := (xen_vcpu s1) (cpu := v2)\<rparr>)
           else Inr s1)"

definition unmask_irq :: "ext \<Rightarrow> nat \<Rightarrow> nat \<Rightarrow> xen_state \<Rightarrow> error + xen_state" where
  "unmask_irq x cpu irq s =
     (let evtchn = evtchn_from_irq s irq
      in if VALID_EVTCHN evtchn then unmask_evtchn x cpu evtchn s else Inr s)"

subsection \<open>Pending state and polling\<close>

definition xen_clear_irq_pending :: "nat \<Rightarrow> xen_state \<Rightarrow> xen_state" where
  "xen_clear_irq_pending irq s =
     (let evtchn = evtchn_from_irq s irq
      in if VALID_EVTCHN evtchn then clear_evtchn evtchn s else s)"

definition xen_set_irq_pending :: "nat \<Rightarrow> xen_state \<Rightarrow> xen_state" where
  "xen_set_irq_pending irq s =
     (let evtchn = evtchn_from_irq s irq
      in if VALID_EVTCHN evtchn then set_evtchn evtchn s else s)"

definition xen_test_irq_pending :: "nat \<Rightarrow> xen_state \<Rightarrow> bool" where
  "xen_test_irq_pending irq s =
     (let evtchn = evtchn_from_irq s irq
      in if VALID_EVTCHN evtchn then test_evtchn evtchn s else False)"

definition xen_poll_irq_timeout ::
  "ext \<Rightarrow> nat \<Rightarrow> nat \<Rightarrow> xen_state \<Rightarrow> error + xen_state" where
  "xen_poll_irq_timeout x irq timeout s =
     (let evtchn = evtchn_from_irq s irq
      in if VALID_EVTCHN evtchn
         then (case hypercall x (SCHEDOP_poll evtchn timeout) s of
                 ((rc, _), s1) \<Rightarrow> if rc \<noteq> 0 then Inl BUG else Inr s1)
         else Inr s)"

definition xen_poll_irq :: "ext \<Rightarrow> nat \<Rightarrow> xen_state \<Rightarrow> error + xen_state" where
  "xen_poll_irq x irq s = xen_poll_irq_timeout x irq 0 s"

subsection \<open>The interrupt core\<close>

text \<open>
  Modelled from the spec: the IrqCore collaborator (kernel/irq, not under src/), of which
  the file consumes "allocate/free an IRQ descriptor, attach a chip vtable,
  register/unregister a handler". \<open>irq_to_desc\<close> reads the descriptor table;
  \<open>irq_to_desc_alloc_node\<close> returns the descriptor, creating it when it is absent, and
  may fail; \<open>dynamic_irq_init\<close> resets a descriptor to the state without chip and
  action; \<open>set_irq_chip_and_handler_name\<close> attaches the chip;
  \<open>dynamic_irq_cleanup\<close> frees a descriptor that has no action left.
\<close>

definition fresh_desc :: irq_desc where
  "fresh_desc = \<lparr>chip = no_irq_chip, has_action = False, action_no_suspend = False,
     status_disabled = True, status_pending = False\<rparr>"

definition irq_to_desc :: "xen_state \<Rightarrow> nat \<Rightarrow> irq_desc option" where
  "irq_to_desc s irq = irq_descs s irq"

definition irq_to_desc_alloc_node ::
  "ext \<Rightarrow> int \<Rightarrow> xen_state \<Rightarrow> irq_desc option \<times> xen_state" where
  "irq_to_desc_alloc_node x irq s =
     (if irq < 0 \<or> \<not> desc_alloc_ok x (nat irq) then (None, s)
      else (case irq_descs s (nat irq) of
              Some d \<Rightarrow> (Some d, s)
            | None \<Rightarrow> (Some fresh_desc,
                       s\<lparr>irq_descs := (irq_descs s) (nat irq \<mapsto> fresh_desc)\<rparr>)))"

definition dynamic_irq_init :: "nat \<Rightarrow> xen_state \<Rightarrow> xen_state" where
  "dynamic_irq_init irq s =
     (case irq_descs s irq of
        None \<Rightarrow> s
      | Some d \<Rightarrow> s\<lparr>irq_descs := (irq_descs s) (irq \<mapsto> fresh_desc)\<rparr>)"

definition dynamic_irq_init_keep_chip_data :: "nat \<Rightarrow> xen_state \<Rightarrow> xen_state" where
  "dynamic_irq_init_keep_chip_data irq s = dynamic_irq_init irq s"

definition set_irq_chip_and_handler_name :: "nat \<Rightarrow> irq_chip \<Rightarrow> xen_state \<Rightarrow> xen_state" where
  "set_irq_chip_and_handler_name irq c s =
     (case irq_descs s irq of
        None \<Rightarrow> s
      | Some d \<Rightarrow> s\<lparr>irq_descs := (irq_descs s) (irq \<mapsto> d\<lparr>chip := c\<rparr>)\<rparr>)"

definition dynamic_irq_cleanup :: "nat \<Rightarrow> xen_state \<Rightarrow> xen_state" where
  "dynamic_irq_cleanup irq s =
     (case irq_descs s irq of
        None \<Rightarrow> s
      | Some d \<Rightarrow>
          if has_action d then s
          else s\<lparr>irq_descs := (irq_descs s) (irq \<mapsto> fresh_desc)\<rparr>)"

definition generic_handle_irq_desc :: "ext \<Rightarrow> nat \<Rightarrow> xen_state \<Rightarrow> xen_state" where
  "generic_handle_irq_desc x irq s =
     handle_irq x irq (s\<lparr>trace := trace s @ [Handle_irq irq]\<rparr>)"

subsection \<open>Finding a free IRQ\<close>

definition get_nr_hw_irqs :: "xen_state \<Rightarrow> int" where
  "get_nr_hw_irqs s = int (nr_hw_irqs s)"

text \<open>The \<open>for\<close> loop of \<open>find_unbound_irq\<close>, from \<open>irq\<close> downwards.\<close>

function find_unbound_irq_loop :: "xen_state \<Rightarrow> int \<Rightarrow> int \<Rightarrow> int" where
  "find_unbound_irq_loop s start irq =
     (if irq > start
      then (case irq_to_desc s (nat irq) of
              None \<Rightarrow> irq
            | Some desc \<Rightarrow>
                if chip desc = no_irq_chip then irq
                else if chip desc \<noteq> xen_dynamic_chip
                then find_unbound_irq_loop s start (irq - 1)
                else if info_type (irq_info s (nat irq)) = IRQT_UNBOUND then irq
                else find_unbound_irq_loop s start (irq - 1))
      else irq)"
  by pat_completeness auto
termination
  by (relation "measure (\<lambda>(s, start, irq). nat (irq - start))") auto

declare find_unbound_irq_loop.simps [simp del]

definition find_unbound_irq :: "ext \<Rightarrow> xen_state \<Rightarrow> error + int \<times> xen_state" where
  "find_unbound_irq x s =
     (let start = get_nr_hw_irqs s
      in if start = int (nr_irqs s) then Inl PANIC
         else
           let irq = find_unbound_irq_loop s start (int (nr_irqs s) - 1)
           in if irq = start then Inl PANIC
              else (case irq_to_desc_alloc_node x irq s of
                      (None, s1) \<Rightarrow> Inr (- 1, s1)
                    | (Some desc, s1) \<Rightarrow>
                        Inr (irq, dynamic_irq_init_keep_chip_data (nat irq) s1)))"

definition identity_mapped_irq :: "xen_state \<Rightarrow> nat \<Rightarrow> bool" where
  "identity_mapped_irq s irq = (int irq < get_nr_hw_irqs s)"

subsection \<open>Physical interrupts\<close>

text \<open>\<open>WARN_ON(rc)\<close> after the hypercall only logs.\<close>

definition pirq_eoi :: "ext \<Rightarrow> nat \<Rightarrow> nat \<Rightarrow> xen_state \<Rightarrow> error + xen_state" where
  "pirq_eoi x cpu irq s =
     (let info = info_for_irq s irq;
          eoi_irq = u_pirq_gsi info
      in case pirq_needs_eoi s irq of
           Inl e \<Rightarrow> Inl e
         | Inr need_eoi \<Rightarrow>
             (case (if \<not> need_eoi \<or> \<not> pirq_eoi_does_unmask s
                    then unmask_evtchn x cpu (info_evtchn info) s else Inr s) of
                Inl e \<Rightarrow> Inl e
              | Inr s1 \<Rightarrow>
                  if need_eoi then Inr (snd (hypercall x (PHYSDEVOP_eoi eoi_irq) s1))
                  else Inr s1))"

definition XENIRQSTAT_needs_eoi :: nat where
  "XENIRQSTAT_needs_eoi = 1"

definition pirq_query_unmask :: "ext \<Rightarrow> nat \<Rightarrow> xen_state \<Rightarrow> error + xen_state" where
  "pirq_query_unmask x irq s =
     (let info = info_for_irq s irq
      in if pirq_eoi_does_unmask s then Inr s
         else if info_type info \<noteq> IRQT_PIRQ then Inl BUG
         else (case hypercall x (PHYSDEVOP_irq_status_query (u_pirq_gsi info)) s of
                 ((rc, out_flags), s1) \<Rightarrow>
                   let flags = (if rc \<noteq> 0 then 0 else out_flags);
                       b1 = clear_bit_bm (u_pirq_gsi info) (pirq_needs_eoi_bits s1);
                       b2 = (if (flags AND XENIRQSTAT_needs_eoi) \<noteq> 0
                             then set_bit_bm (u_pirq_gsi info) b1 else b1)
                   in Inr (s1\<lparr>pirq_needs_eoi_bits := b2\<rparr>)))"

definition probing_irq :: "xen_state \<Rightarrow> nat \<Rightarrow> bool" where
  "probing_irq s irq =
     (case irq_to_desc s irq of None \<Rightarrow> False | Some desc \<Rightarrow> \<not> has_action desc)"

definition BIND_PIRQ__WILL_SHARE :: nat where
  "BIND_PIRQ__WILL_SHARE = 1"

text \<open>
  \<open>startup_pirq\<close> returns the value of its \<open>return\<close> statement with the new state; the
  \<open>printk\<close> of the failure branch only logs.
\<close>

definition startup_pirq :: "ext \<Rightarrow> nat \<Rightarrow> nat \<Rightarrow> xen_state \<Rightarrow> error + nat \<times> xen_state" where
  "startup_pirq x cpu irq s =
     (let info = info_for_irq s irq;
          evtchn = evtchn_from_irq s irq
      in if info_type info \<noteq> IRQT_PIRQ then Inl BUG
         else if VALID_EVTCHN evtchn
         then (case pirq_eoi x cpu irq s of Inl e \<Rightarrow> Inl e | Inr s' \<Rightarrow> Inr (0, s'))
         else
           (let flags = (if (u_pirq_flags info AND PIRQ_SHAREABLE) \<noteq> 0
                         then BIND_PIRQ__WILL_SHARE else 0)
            in (case hypercall x (EVTCHNOP_bind_pirq (u_pirq_gsi info) flags) s of
                  ((rc, port), s1) \<Rightarrow>
                    if rc \<noteq> 0 then Inr (0, s1)
                    else (case pirq_query_unmask x irq s1 of
                            Inl e \<Rightarrow> Inl e
                          | Inr s2 \<Rightarrow>
                              (case bind_evtchn_to_cpu port 0
                                      (s2\<lparr>evtchn_to_irq :=
                                            (evtchn_to_irq s2) (port := int irq)\<rparr>) of
                                 Inl e \<Rightarrow> Inl e
                               | Inr s4 \<Rightarrow>
                                   (case pirq_eoi x cpu irq
                                           (s4\<lparr>irq_info := (irq_info s4)
                                                 (irq := (irq_info s4 irq)
                                                    \<lparr>info_evtchn := ushort port\<rparr>)\<rparr>) of
                                      Inl e \<Rightarrow> Inl e
                                    | Inr s' \<Rightarrow> Inr (0, s')))))))"

subsection \<open>Binding and unbinding\<close>

text \<open>
  The binding functions return the C return value together with the new state. A negative
  IRQ number used as an array index is the error \<open>FAULT\<close>. The spin lock
  \<open>irq_mapping_update_lock\<close> has no effect on one thread of control.
\<close>

definition bind_evtchn_to_irq :: "ext \<Rightarrow> nat \<Rightarrow> xen_state \<Rightarrow> error + int \<times> xen_state" where
  "bind_evtchn_to_irq x evtchn s =
     (let irq = evtchn_to_irq s evtchn
      in if irq = - 1
         then (case find_unbound_irq x s of
                 Inl e \<Rightarrow> Inl e
               | Inr (irq, s1) \<Rightarrow>
                   if irq < 0 then Inl FAULT
                   else
                     (let s2 = set_irq_chip_and_handler_name (nat irq) xen_dynamic_chip s1;
                          s3 = s2\<lparr>evtchn_to_irq := (evtchn_to_irq s2) (evtchn := irq)\<rparr>;
                          s4 = s3\<lparr>irq_info := (irq_info s3)
                                  (nat irq := mk_evtchn_info evtchn)\<rparr>
                      in Inr (irq, s4)))
         else Inr (irq, s))"

definition bind_ipi_to_irq ::
  "ext \<Rightarrow> nat \<Rightarrow> nat \<Rightarrow> xen_state \<Rightarrow> error + int \<times> xen_state" where
  "bind_ipi_to_irq x ipi cpu s =
     (let irq = ipi_to_irq s cpu ipi
      in if irq = - 1
         then (case find_unbound_irq x s of
                 Inl e \<Rightarrow> Inl e
               | Inr (irq, s1) \<Rightarrow>
                   if irq < 0 then Inr (irq, s1)
                   else
                     (case hypercall x (EVTCHNOP_bind_ipi cpu)
                             (set_irq_chip_and_handler_name (nat irq) xen_percpu_chip s1) of
                        ((rc, evtchn), s3) \<Rightarrow>
                          if rc \<noteq> 0 then Inl BUG
                          else
                            (let s4 = s3\<lparr>evtchn_to_irq :=
                                           (evtchn_to_irq s3) (evtchn := irq)\<rparr>;
                                 s5 = s4\<lparr>irq_info := (irq_info s4)
                                         (nat irq := mk_ipi_info evtchn ipi)\<rparr>;
                                 s6 = s5\<lparr>ipi_to_irq := (ipi_to_irq s5)
                                         (cpu := (ipi_to_irq s5 cpu) (ipi := irq))\<rparr>
                             in (case bind_evtchn_to_cpu evtchn cpu s6 of
                                   Inl e \<Rightarrow> Inl e
                                 | Inr s7 \<Rightarrow> Inr (irq, s7)))))
         else Inr (irq, s))"

text \<open>
  \<open>bind_interdomain.remote_dom\<close> is a \<open>domid_t\<close>, 16 bits wide: the assignment
  truncates the \<open>unsigned int remote_domain\<close>.
\<close>

definition bind_interdomain_evtchn_to_irq ::
  "ext \<Rightarrow> nat \<Rightarrow> nat \<Rightarrow> xen_state \<Rightarrow> error + int \<times> xen_state" where
  "bind_interdomain_evtchn_to_irq x remote_domain remote_port s =
     (case hypercall x (EVTCHNOP_bind_interdomain (ushort remote_domain) remote_port) s of
        ((err, local_port), s1) \<Rightarrow>
          if err \<noteq> 0 then Inr (err, s1) else bind_evtchn_to_irq x local_port s1)"

definition bind_virq_to_irq ::
  "ext \<Rightarrow> nat \<Rightarrow> nat \<Rightarrow> xen_state \<Rightarrow> error + int \<times> xen_state" where
  "bind_virq_to_irq x virq cpu s =
     (let irq = virq_to_irq s cpu virq
      in if irq = - 1
         then (case find_unbound_irq x s of
                 Inl e \<Rightarrow> Inl e
               | Inr (irq, s1) \<Rightarrow>
                   (case hypercall x (EVTCHNOP_bind_virq virq cpu)
                           (if irq < 0 then s1
                            else set_irq_chip_and_handler_name (nat irq) xen_percpu_chip s1) of
                      ((rc, evtchn), s3) \<Rightarrow>
                        if rc \<noteq> 0 then Inl BUG
                        else if irq < 0 then Inl FAULT
                        else
                          (let s4 = s3\<lparr>evtchn_to_irq :=
                                         (evtchn_to_irq s3) (evtchn := irq)\<rparr>;
                               s5 = s4\<lparr>irq_info := (irq_info s4)
                                       (nat irq := mk_virq_info evtchn virq)\<rparr>;
                               s6 = s5\<lparr>virq_to_irq := (virq_to_irq s5)
                                       (cpu := (virq_to_irq s5 cpu) (virq := irq))\<rparr>
                           in (case bind_evtchn_to_cpu evtchn cpu s6 of
                                 Inl e \<Rightarrow> Inl e
                               | Inr s7 \<Rightarrow> Inr (irq, s7)))))
         else Inr (irq, s))"

text \<open>
  \<open>unbind_from_irq\<close>. The \<open>switch\<close> on the type clears the per-CPU reverse entry of
  a VIRQ or an IPI, at the CPU that \<open>cpu_from_evtchn\<close> reports for the port.
\<close>

definition unbind_from_irq :: "ext \<Rightarrow> nat \<Rightarrow> xen_state \<Rightarrow> error + xen_state" where
  "unbind_from_irq x irq s =
     (let evtchn = evtchn_from_irq s irq
      in case (if VALID_EVTCHN evtchn
               then (case hypercall x (EVTCHNOP_close evtchn) s of
                       ((rc, _), s1) \<Rightarrow>
                         if rc \<noteq> 0 then Inl BUG
                         else
                           (case (case type_from_irq s1 irq of
                                    IRQT_VIRQ \<Rightarrow>
                                      (case virq_from_irq s1 irq of
                                         Inl e \<Rightarrow> Inl e
                                       | Inr virq \<Rightarrow>
                                           Inr (s1\<lparr>virq_to_irq := (virq_to_irq s1)
                                                  (cpu_from_evtchn s1 evtchn :=
                                                     (virq_to_irq s1 (cpu_from_evtchn s1 evtchn))
                                                       (virq := - 1))\<rparr>))
                                  | IRQT_IPI \<Rightarrow>
                                      (case ipi_from_irq s1 irq of
                                         Inl e \<Rightarrow> Inl e
                                       | Inr ipi \<Rightarrow>
                                           Inr (s1\<lparr>ipi_to_irq := (ipi_to_irq s1)
                                                  (cpu_from_evtchn s1 evtchn :=
                                                     (ipi_to_irq s1 (cpu_from_evtchn s1 evtchn))
                                                       (ipi := - 1))\<rparr>))
                                  | _ \<Rightarrow> Inr s1) of
                              Inl e \<Rightarrow> Inl e
                            | Inr s2 \<Rightarrow>
                                (case bind_evtchn_to_cpu evtchn 0 s2 of
                                   Inl e \<Rightarrow> Inl e
                                 | Inr s3 \<Rightarrow>
                                     Inr (s3\<lparr>evtchn_to_irq :=
                                               (evtchn_to_irq s3) (evtchn := - 1)\<rparr>))))
               else Inr s) of
           Inl e \<Rightarrow> Inl e
         | Inr s4 \<Rightarrow>
             if info_type (irq_info s4 irq) \<noteq> IRQT_UNBOUND
             then Inr (dynamic_irq_cleanup irq
                         (s4\<lparr>irq_info := (irq_info s4) (irq := mk_unbound_info)\<rparr>))
             else Inr s4)"

subsection \<open>Binding with a handler\<close>

definition IRQF_NO_SUSPEND :: nat where
  "IRQF_NO_SUSPEND = 16384"

definition IRQF_FORCE_RESUME :: nat where
  "IRQF_FORCE_RESUME = 32768"

definition IRQF_EARLY_RESUME :: nat where
  "IRQF_EARLY_RESUME = 131072"

text \<open>
  The common tail of the four functions is written out in each, as in the source:
  \<open>request_irq\<close>, and on a non-zero return value \<open>unbind_from_irq\<close> and that value.
\<close>

definition bind_evtchn_to_irqhandler ::
  "ext \<Rightarrow> nat \<Rightarrow> nat \<Rightarrow> xen_state \<Rightarrow> error + int \<times> xen_state" where
  "bind_evtchn_to_irqhandler x evtchn irqflags s =
     (case bind_evtchn_to_irq x evtchn s of
        Inl e \<Rightarrow> Inl e
      | Inr (irq, s1) \<Rightarrow>
          (case request_irq x (nat irq) irqflags s1 of
             (retval, s2) \<Rightarrow>
               if retval \<noteq> 0
               then (case unbind_from_irq x (nat irq) s2 of
                       Inl e \<Rightarrow> Inl e
                     | Inr s3 \<Rightarrow> Inr (retval, s3))
               else Inr (irq, s2)))"

definition bind_interdomain_evtchn_to_irqhandler ::
  "ext \<Rightarrow> nat \<Rightarrow> nat \<Rightarrow> nat \<Rightarrow> xen_state \<Rightarrow> error + int \<times> xen_state" where
  "bind_interdomain_evtchn_to_irqhandler x remote_domain remote_port irqflags s =
     (case bind_interdomain_evtchn_to_irq x remote_domain remote_port s of
        Inl e \<Rightarrow> Inl e
      | Inr (irq, s1) \<Rightarrow>
          if irq < 0 then Inr (irq, s1)
          else
            (case request_irq x (nat irq) irqflags s1 of
               (retval, s2) \<Rightarrow>
                 if retval \<noteq> 0
                 then (case unbind_from_irq x (nat irq) s2 of
                         Inl e \<Rightarrow> Inl e
                       | Inr s3 \<Rightarrow> Inr (retval, s3))
                 else Inr (irq, s2)))"

definition bind_virq_to_irqhandler ::
  "ext \<Rightarrow> nat \<Rightarrow> nat \<Rightarrow> nat \<Rightarrow> xen_state \<Rightarrow> error + int \<times> xen_state" where
  "bind_virq_to_irqhandler x virq cpu irqflags s =
     (case bind_virq_to_irq x virq cpu s of
        Inl e \<Rightarrow> Inl e
      | Inr (irq, s1) \<Rightarrow>
          (case request_irq x (nat irq) irqflags s1 of
             (retval, s2) \<Rightarrow>
               if retval \<noteq> 0
               then (case unbind_from_irq x (nat irq) s2 of
                       Inl e \<Rightarrow> Inl e
                     | Inr s3 \<Rightarrow> Inr (retval, s3))
               else Inr (irq, s2)))"

definition bind_ipi_to_irqhandler ::
  "ext \<Rightarrow> nat \<Rightarrow> nat \<Rightarrow> nat \<Rightarrow> xen_state \<Rightarrow> error + int \<times> xen_state" where
  "bind_ipi_to_irqhandler x ipi cpu irqflags s =
     (case bind_ipi_to_irq x ipi cpu s of
        Inl e \<Rightarrow> Inl e
      | Inr (irq, s1) \<Rightarrow>
          if irq < 0 then Inr (irq, s1)
          else
            (case request_irq x (nat irq)
                    (irqflags OR IRQF_NO_SUSPEND OR IRQF_FORCE_RESUME OR IRQF_EARLY_RESUME)
                    s1 of
               (retval, s2) \<Rightarrow>
                 if retval \<noteq> 0
                 then (case unbind_from_irq x (nat irq) s2 of
                         Inl e \<Rightarrow> Inl e
                       | Inr s3 \<Rightarrow> Inr (retval, s3))
                 else Inr (irq, s2)))"

text \<open>
  What the specification asks of the rollback, "a full unbind so no half-registered state
  is observable", for the IRQ \<open>irq\<close> that the bind step, started in state \<open>s\<close> and
  ending in state \<open>s1\<close>, has bound to \<open>port\<close>: the record of the IRQ is the unbound
  one (port 0), \<open>evtchn_to_irq\<close> is the table of \<open>s\<close> with \<open>-1\<close> for the port, the
  per-CPU VIRQ and IPI tables are those of \<open>s\<close>, the descriptor of the IRQ has no chip
  and no action, the last hypercall is the \<open>EVTCHNOP_close\<close> of the port, the port is in
  the port mask of CPU 0 and in no other mask that did not have it in \<open>s\<close>, and the
  shared bitmaps are those of \<open>s\<close>.
\<close>

definition rolled_back :: "xen_state \<Rightarrow> xen_state \<Rightarrow> nat \<Rightarrow> nat \<Rightarrow> xen_state \<Rightarrow> bool" where
  "rolled_back s s1 irq port s3 =
     (irq_info s3 = (irq_info s) (irq := mk_unbound_info) \<and>
      evtchn_to_irq s3 = (evtchn_to_irq s) (port := - 1) \<and>
      virq_to_irq s3 = virq_to_irq s \<and>
      ipi_to_irq s3 = ipi_to_irq s \<and>
      irq_descs s3 = (irq_descs s) (irq \<mapsto> fresh_desc) \<and>
      trace s3 = trace s1 @ [Hypercall (EVTCHNOP_close port)] \<and>
      test_bit_bm port (cpu_evtchn_mask s3 0) \<and>
      (\<forall>c. c \<noteq> 0 \<longrightarrow> test_bit_bm port (cpu_evtchn_mask s3 c) \<longrightarrow>
           test_bit_bm port (cpu_evtchn_mask s c)) \<and>
      evtchn_mask s3 = evtchn_mask s \<and>
      evtchn_pending s3 = evtchn_pending s)"

subsection \<open>The upcall\<close>

text \<open>
  \<open>MASK_LSBS(w, i)\<close> is \<open>w & (~0UL << i)\<close>. \<open>__ffs\<close> is the index of the lowest
  set bit; the code calls it on non-zero words only (the value at zero is not used).
\<close>

definition MASK_LSBS :: "ulong \<Rightarrow> nat \<Rightarrow> ulong" where
  "MASK_LSBS w i = w AND push_bit i (NOT 0)"

definition ffs :: "ulong \<Rightarrow> nat" where
  "ffs w = (case find (bit w) [0..<BITS_PER_LONG] of Some n \<Rightarrow> n | None \<Rightarrow> 0)"

lemma ffs_bit:
  assumes "w \<noteq> 0"
  shows "bit w (ffs w) \<and> ffs w < 64"
proof -
  from assms obtain n where n: "bit w n"
    by (auto simp: bit_eq_iff)
  then have "n < 64"
    using bit_imp_le_length [of w n] by simp
  with n have "\<exists>k \<in> set [0..<BITS_PER_LONG]. bit w k"
    by (auto simp: BITS_PER_LONG_def)
  then obtain m where m: "find (bit w) [0..<BITS_PER_LONG] = Some m"
    by (cases "find (bit w) [0..<BITS_PER_LONG]") (auto simp: find_None_iff)
  then have "bit w m \<and> m < 64"
    by (auto simp: find_Some_iff BITS_PER_LONG_def)
  with m show ?thesis
    by (simp add: ffs_def)
qed

lemma MASK_LSBS_bit: "bit (MASK_LSBS w i) n \<longleftrightarrow> bit w n \<and> i \<le> n"
  by (auto simp: MASK_LSBS_def bit_simps dest: bit_imp_le_length)

lemma clear_bit_less:
  assumes "bit (pw :: ulong) w"
  shows "unat (pw AND NOT (push_bit w 1)) < unat pw"
proof -
  have le: "pw AND NOT (push_bit w 1) \<le> pw"
    by (rule word_and_le2)
  have "\<not> bit (pw AND NOT (push_bit w 1)) w"
    by (simp add: bit_simps)
  with assms have "pw AND NOT (push_bit w 1) \<noteq> pw"
    by metis
  with le have "pw AND NOT (push_bit w 1) < pw"
    by simp
  then show ?thesis
    by (simp add: word_less_nat_alt)
qed

lemma ffs_mask_clear:
  "MASK_LSBS pw i \<noteq> 0 \<Longrightarrow>
     unat (pw AND NOT (push_bit (ffs (MASK_LSBS pw i)) 1)) < unat pw"
  using ffs_bit [of "MASK_LSBS pw i"] clear_bit_less [of pw "ffs (MASK_LSBS pw i)"]
  by (simp add: MASK_LSBS_bit)

text \<open>
  The inner \<open>do ... while (bit_idx != 0)\<close> loop over the bits of one word:
  \<open>pending_bits\<close> is the snapshot taken before the loop, \<open>bit_idx\<close> the position to
  resume from. Each port found is masked and cleared, handed to the interrupt core when it
  has an IRQ with a descriptor, and the per-CPU cursor is moved behind it.
\<close>

function upcall_bits_loop ::
  "ext \<Rightarrow> nat \<Rightarrow> nat \<Rightarrow> ulong \<Rightarrow> nat \<Rightarrow> xen_state \<Rightarrow> xen_state" where
  "upcall_bits_loop x cpu word_idx pending_bits bit_idx s =
     (let bits = MASK_LSBS pending_bits bit_idx
      in if bits = 0 then s
         else
           (let b = ffs bits;
                port = word_idx * BITS_PER_LONG + b;
                irq = evtchn_to_irq s port;
                s1 = clear_evtchn port (mask_evtchn port s);
                s2 = (if irq \<noteq> - 1
                      then (case irq_to_desc s1 (nat irq) of
                              None \<Rightarrow> s1
                            | Some desc \<Rightarrow> generic_handle_irq_desc x (nat irq) s1)
                      else s1);
                b1 = (b + 1) mod BITS_PER_LONG;
                s3 = s2\<lparr>current_word_idx := (current_word_idx s2)
                             (cpu := (if b1 \<noteq> 0 then word_idx
                                      else (word_idx + 1) mod BITS_PER_LONG)),
                        current_bit_idx := (current_bit_idx s2) (cpu := b1)\<rparr>
            in if b1 \<noteq> 0 then upcall_bits_loop x cpu word_idx pending_bits b1 s3
               else s3))"
  by pat_completeness auto
termination
proof (relation "measure (\<lambda>(x, cpu, word_idx, pending_bits, bit_idx, s). 64 - bit_idx)")
  show "wf (measure (\<lambda>(x, cpu, word_idx, pending_bits, bit_idx, s). 64 - bit_idx))"
    by simp
next
  fix x :: ext and cpu word_idx :: nat and pending_bits :: ulong and bit_idx :: nat
    and s :: xen_state and bits b port irq s1 s2 b1 s3
  assume bits: "bits = MASK_LSBS pending_bits bit_idx" "bits \<noteq> 0"
    and b: "b = ffs bits" and b1: "b1 = (b + 1) mod BITS_PER_LONG" "b1 \<noteq> 0"
  from bits b have "bit bits b" "b < 64"
    using ffs_bit by auto
  with bits have "bit_idx \<le> b"
    by (simp add: MASK_LSBS_bit)
  with b1 \<open>b < 64\<close> have "bit_idx < b1 \<and> bit_idx < 64"
    by (auto simp: BITS_PER_LONG_def mod_Suc split: if_splits)
  then show "((x, cpu, word_idx, pending_bits, b1, s3),
                x, cpu, word_idx, pending_bits, bit_idx, s)
       \<in> measure (\<lambda>(x, cpu, word_idx, pending_bits, bit_idx, s). 64 - bit_idx)"
    by auto
qed

declare upcall_bits_loop.simps [simp del]

text \<open>
  The \<open>for (i = 0; pending_words != 0; i++)\<close> loop over the selector. On the starting
  word the first visit (\<open>i = 0\<close>) starts at \<open>start_bit_idx\<close>; on a later visit the
  source executes \<open>bit_idx &= (1UL << start_bit_idx) - 1\<close> on the \<open>bit_idx\<close> it has
  just set to 0, and \<open>pending_bits\<close> is the word as \<open>active_evtchns\<close> reads it then.
\<close>

function upcall_words_loop ::
  "ext \<Rightarrow> nat \<Rightarrow> nat \<Rightarrow> nat \<Rightarrow> nat \<Rightarrow> nat \<Rightarrow> ulong \<Rightarrow> xen_state \<Rightarrow> xen_state" where
  "upcall_words_loop x cpu start_word_idx start_bit_idx i word_idx pending_words s =
     (if pending_words = 0 then s
      else
        (let words = MASK_LSBS pending_words word_idx
         in if words = 0
            then upcall_words_loop x cpu start_word_idx start_bit_idx (i + 1) 0
                   pending_words s
            else
              (let w = ffs words;
                   pending_bits = active_evtchns cpu s w;
                   bit_idx0 = (0::nat);
                   bit_idx =
                     (if w = start_word_idx
                      then (if i = 0 then start_bit_idx
                            else unat ((word_of_nat bit_idx0 :: ulong)
                                         AND (push_bit start_bit_idx 1 - 1)))
                      else bit_idx0);
                   s1 = upcall_bits_loop x cpu w pending_bits bit_idx s;
                   pending_words1 =
                     (if w \<noteq> start_word_idx \<or> i \<noteq> 0
                      then pending_words AND NOT (push_bit w 1)
                      else pending_words)
               in upcall_words_loop x cpu start_word_idx start_bit_idx (i + 1)
                    ((w + 1) mod BITS_PER_LONG) pending_words1 s1)))"
  by pat_completeness auto
termination
  apply (relation "measure (\<lambda>(x, cpu, sw, sb, i, word_idx, pw, s).
            3 * unat pw + (if i = 0 then 2 else 0)
              + (if MASK_LSBS pw word_idx = 0 then 1 else 0))")
    apply simp
   apply (simp add: MASK_LSBS_def)
  apply clarsimp
  apply (frule ffs_mask_clear)
  apply auto
  done

declare upcall_words_loop.simps [simp del]

text \<open>
  \<open>__xen_evtchn_do_upcall\<close> (\<open>uu\<close> stands for the two underscores) on CPU \<open>cpu\<close>. The
  outer \<open>do ... while\<close> runs as long as a handler raises \<open>evtchn_upcall_pending\<close>
  again, so it need not end: not returning is \<open>None\<close>. \<open>xed_nesting_count\<close> is an
  \<open>unsigned\<close>.
\<close>

partial_function (option) uu_xen_evtchn_do_upcall ::
  "ext \<Rightarrow> nat \<Rightarrow> xen_state \<Rightarrow> (error + xen_state) option" where
  "uu_xen_evtchn_do_upcall x cpu s =
     (let v = xen_vcpu s cpu;
          s1 = s\<lparr>xen_vcpu := (xen_vcpu s) (cpu := v\<lparr>evtchn_upcall_pending := 0\<rparr>)\<rparr>;
          n = xed_nesting_count s1 cpu;
          s2 = s1\<lparr>xed_nesting_count :=
                    (xed_nesting_count s1) (cpu := (n + 1) mod 2 ^ 32)\<rparr>
      in if n \<noteq> 0 then Some (Inr s2)
         else
           (let pending_words = evtchn_pending_sel (xen_vcpu s2 cpu);
                s3 = s2\<lparr>xen_vcpu := (xen_vcpu s2)
                          (cpu := (xen_vcpu s2 cpu)\<lparr>evtchn_pending_sel := 0\<rparr>)\<rparr>;
                start_word_idx = current_word_idx s3 cpu;
                start_bit_idx = current_bit_idx s3 cpu;
                s4 = upcall_words_loop x cpu start_word_idx start_bit_idx 0 start_word_idx
                       pending_words s3
            in if \<not> irqs_disabled s4 then Some (Inl BUG)
               else
                 (let count = xed_nesting_count s4 cpu;
                      s5 = s4\<lparr>xed_nesting_count := (xed_nesting_count s4) (cpu := 0)\<rparr>
                  in if count \<noteq> 1 \<or> evtchn_upcall_pending (xen_vcpu s5 cpu) \<noteq> 0
                     then uu_xen_evtchn_do_upcall x cpu s5
                     else Some (Inr s5))))"

text \<open>
  The body of the inner loop for the bit \<open>b\<close> of word \<open>word_idx\<close>, named for the
  proofs: what the scan does to one port.
\<close>

definition upcall_port :: "ext \<Rightarrow> nat \<Rightarrow> nat \<Rightarrow> nat \<Rightarrow> xen_state \<Rightarrow> xen_state" where
  "upcall_port x cpu word_idx b s =
     (let port = word_idx * BITS_PER_LONG + b;
          irq = evtchn_to_irq s port;
          s1 = clear_evtchn port (mask_evtchn port s);
          s2 = (if irq \<noteq> - 1
                then (case irq_to_desc s1 (nat irq) of
                        None \<Rightarrow> s1
                      | Some desc \<Rightarrow> generic_handle_irq_desc x (nat irq) s1)
                else s1);
          b1 = (b + 1) mod BITS_PER_LONG
      in s2\<lparr>current_word_idx := (current_word_idx s2)
                 (cpu := (if b1 \<noteq> 0 then word_idx else (word_idx + 1) mod BITS_PER_LONG)),
            current_bit_idx := (current_bit_idx s2) (cpu := b1)\<rparr>)"

subsection \<open>Resume\<close>

fun fold_err :: "('a \<Rightarrow> 's \<Rightarrow> error + 's) \<Rightarrow> 'a list \<Rightarrow> 's \<Rightarrow> error + 's" where
  "fold_err f [] s = Inr s"
| "fold_err f (a # as) s = (case f a s of Inl e \<Rightarrow> Inl e | Inr s' \<Rightarrow> fold_err f as s')"

text \<open>\<open>memset\<close> of the first \<open>n\<close> words of a bitmap to the word \<open>v\<close>.\<close>

definition memset_words :: "bitmap \<Rightarrow> ulong \<Rightarrow> nat \<Rightarrow> bitmap" where
  "memset_words bm v n = (\<lambda>w. if w < n then v else bm w)"

text \<open>
  \<open>init_evtchn_cpu_bindings\<close>: for every possible CPU the \<open>memset\<close> of its port mask,
  to all-ones for CPU 0 and to zero for the others. The affinity masks of the descriptors
  (\<open>CONFIG_SMP\<close>) belong to the interrupt core and are left out.
\<close>

definition memset_cpu_evtchn_mask :: "nat \<Rightarrow> xen_state \<Rightarrow> xen_state" where
  "memset_cpu_evtchn_mask i s =
     s\<lparr>cpu_evtchn_mask := (cpu_evtchn_mask s)
          (i := memset_words (cpu_evtchn_mask s i) (if i = 0 then - 1 else 0)
                  (nr_event_channels s div BITS_PER_LONG))\<rparr>"

definition init_evtchn_cpu_bindings :: "xen_state \<Rightarrow> xen_state" where
  "init_evtchn_cpu_bindings s = fold memset_cpu_evtchn_mask (possible_cpus s) s"

text \<open>
  The first part of \<open>xen_irq_resume\<close>, up to the point where every mapping is gone: the
  CPU bindings are initialised, every port is masked, the event channel of every IRQ is
  zapped and \<open>evtchn_to_irq\<close> is cleared.
\<close>

definition xen_irq_resume_invalidate :: "xen_state \<Rightarrow> xen_state" where
  "xen_irq_resume_invalidate s =
     (let s1 = init_evtchn_cpu_bindings s;
          s2 = fold mask_evtchn [0..<nr_event_channels s1] s1;
          s3 = fold (\<lambda>irq s'. s'\<lparr>irq_info := (irq_info s')
                        (irq := (irq_info s' irq)\<lparr>info_evtchn := 0\<rparr>)\<rparr>)
                 [0..<nr_irqs s2] s2
      in fold (\<lambda>evtchn s'. s'\<lparr>evtchn_to_irq := (evtchn_to_irq s') (evtchn := - 1)\<rparr>)
           [0..<nr_event_channels s3] s3)"

definition restore_cpu_virqs :: "ext \<Rightarrow> nat \<Rightarrow> xen_state \<Rightarrow> error + xen_state" where
  "restore_cpu_virqs x cpu s =
     fold_err (\<lambda>virq s'.
        let irq = virq_to_irq s' cpu virq
        in if irq = - 1 then Inr s'
           else (case virq_from_irq s' (nat irq) of
                   Inl e \<Rightarrow> Inl e
                 | Inr v \<Rightarrow>
                     if v \<noteq> virq then Inl BUG
                     else (case hypercall x (EVTCHNOP_bind_virq virq cpu) s' of
                             ((rc, evtchn), s1) \<Rightarrow>
                               if rc \<noteq> 0 then Inl BUG
                               else bind_evtchn_to_cpu evtchn cpu
                                      (s1\<lparr>evtchn_to_irq := (evtchn_to_irq s1) (evtchn := irq),
                                          irq_info := (irq_info s1)
                                            (nat irq := mk_virq_info evtchn virq)\<rparr>))))
       [0..<nr_virqs s] s"

definition restore_cpu_ipis :: "ext \<Rightarrow> nat \<Rightarrow> xen_state \<Rightarrow> error + xen_state" where
  "restore_cpu_ipis x cpu s =
     fold_err (\<lambda>ipi s'.
        let irq = ipi_to_irq s' cpu ipi
        in if irq = - 1 then Inr s'
           else (case ipi_from_irq s' (nat irq) of
                   Inl e \<Rightarrow> Inl e
                 | Inr v \<Rightarrow>
                     if v \<noteq> ipi then Inl BUG
                     else (case hypercall x (EVTCHNOP_bind_ipi cpu) s' of
                             ((rc, evtchn), s1) \<Rightarrow>
                               if rc \<noteq> 0 then Inl BUG
                               else bind_evtchn_to_cpu evtchn cpu
                                      (s1\<lparr>evtchn_to_irq := (evtchn_to_irq s1) (evtchn := irq),
                                          irq_info := (irq_info s1)
                                            (nat irq := mk_ipi_info evtchn ipi)\<rparr>))))
       [0..<xen_nr_ipis s] s"

text \<open>
  \<open>xen_irq_resume\<close> on CPU \<open>cpu\<close>. In the last loop the test \<open>evtchn == -1\<close> compares
  a 16-bit port with \<open>-1\<close> and never holds.
\<close>

definition xen_irq_resume :: "ext \<Rightarrow> nat \<Rightarrow> xen_state \<Rightarrow> error + xen_state" where
  "xen_irq_resume x cpu s =
     (case fold_err (\<lambda>c s'. case restore_cpu_virqs x c s' of
                               Inl e \<Rightarrow> Inl e
                             | Inr s'' \<Rightarrow> restore_cpu_ipis x c s'')
             (possible_cpus s) (xen_irq_resume_invalidate s) of
        Inl e \<Rightarrow> Inl e
      | Inr s1 \<Rightarrow>
          (case fold_err (\<lambda>irq s'.
                   case irq_to_desc s' irq of
                     None \<Rightarrow> Inr s'
                   | Some desc \<Rightarrow>
                       if \<not> has_action desc \<or> \<not> action_no_suspend desc then Inr s'
                       else if status_disabled desc then Inr s'
                       else unmask_evtchn x cpu (evtchn_from_irq s' irq) s')
                  [0..<nr_irqs s1] s1 of
             Inl e \<Rightarrow> Inl e
           | Inr s2 \<Rightarrow>
               if pirq_eoi_does_unmask s2
               then (case hypercall x PHYSDEVOP_pirq_eoi_gmfn s2 of
                       ((rc, _), s3) \<Rightarrow> if rc \<noteq> 0 then Inl BUG else Inr s3)
               else Inr s2))"

section \<open>A concrete configuration\<close>

text \<open>
  Two CPUs and 1024 event channels. IRQ 100 is VIRQ 0 of CPU 1 on port 42, IRQ 101 is IPI 0
  of CPU 0 on port 17, IRQ 102 is the inter-domain port 7 (masked and pending), IRQ 5 is a
  physical interrupt that has not been started and IRQ 6 one that is bound to port 9
  (masked) and needs an EOI. The hypervisor of \<open>example_ext\<close> hands out the ports 51,
  32 and 33 for an inter-domain channel, a VIRQ and an IPI and refuses
  \<open>EVTCHNOP_bind_pirq\<close> with \<open>-EBUSY\<close>; \<open>request_irq\<close> fails with the same code.
\<close>

definition example_ext :: ext where
  "example_ext = \<lparr>hv = (\<lambda>t op. case op of
                                   EVTCHNOP_bind_interdomain d p \<Rightarrow> (0, 51)
                                 | EVTCHNOP_bind_virq v c \<Rightarrow> (0, 32)
                                 | EVTCHNOP_bind_ipi c \<Rightarrow> (0, 33)
                                 | EVTCHNOP_bind_pirq g f \<Rightarrow> (- 16, 0)
                                 | _ \<Rightarrow> (0, 0)),
     handle_irq = (\<lambda>irq s. s),
     request_irq = (\<lambda>irq flags s. (- 16, s)),
     desc_alloc_ok = (\<lambda>irq. True)\<rparr>"

definition example_state :: xen_state where
  "example_state =
     \<lparr>evtchn_pending = (\<lambda>w. if w = 0 then 128 else 0),
      evtchn_mask = (\<lambda>w. if w = 0 then 640 else 0),
      xen_vcpu = (\<lambda>c. \<lparr>evtchn_upcall_pending = 0, evtchn_upcall_mask = 0,
                        evtchn_pending_sel = 0\<rparr>),
      cpu_evtchn_mask = (\<lambda>c w. if c = 0 then (if w = 0 then NOT (push_bit 42 1) else - 1)
                               else if c = 1 \<and> w = 0 then push_bit 42 1 else 0),
      evtchn_to_irq = (\<lambda>p. if p = 42 then 100 else if p = 17 then 101
                            else if p = 7 then 102 else if p = 9 then 6 else - 1),
      irq_info = (\<lambda>i. if i = 100 then (mk_virq_info 42 0)\<lparr>info_cpu := 1\<rparr>
                       else if i = 101 then mk_ipi_info 17 0
                       else if i = 102 then mk_evtchn_info 7
                       else if i = 5 then mk_pirq_info 0 5 0
                       else if i = 6 then mk_pirq_info 9 6 0
                       else mk_unbound_info),
      virq_to_irq = (\<lambda>c v. if c = 1 \<and> v = 0 then 100 else - 1),
      ipi_to_irq = (\<lambda>c v. if c = 0 \<and> v = 0 then 101 else - 1),
      pirq_eoi_does_unmask = True,
      pirq_needs_eoi_bits = (\<lambda>w. if w = 0 then 64 else 0),
      xed_nesting_count = (\<lambda>c. 0),
      current_word_idx = (\<lambda>c. 0),
      current_bit_idx = (\<lambda>c. 0),
      irq_descs = (\<lambda>i. if i = 100 \<or> i = 101 then Some (fresh_desc\<lparr>chip := xen_percpu_chip\<rparr>)
                        else if i = 102 then Some (fresh_desc\<lparr>chip := xen_dynamic_chip\<rparr>)
                        else if i = 5 \<or> i = 6 then Some (fresh_desc\<lparr>chip := xen_pirq_chip\<rparr>)
                        else None),
      nr_irqs = 256, nr_hw_irqs = 16, nr_event_channels = 1024, nr_virqs = 24,
      xen_nr_ipis = 6, possible_cpus = [0, 1], irqs_disabled = True, trace = []\<rparr>"

text \<open>
  The same configuration with the selector bit of word 0 already set on every CPU while
  \<open>evtchn_upcall_pending\<close> is clear.
\<close>

definition scenario_sel_state :: xen_state where
  "scenario_sel_state =
     example_state\<lparr>xen_vcpu := (\<lambda>c. \<lparr>evtchn_upcall_pending = 0, evtchn_upcall_mask = 0,
                                     evtchn_pending_sel = 1\<rparr>)\<rparr>"

text \<open>
  The scan scenario of the specification on that configuration: ports 1 and 3 (word 0) and
  port 320 (word 5) are pending, nothing is masked, every port belongs to CPU 0, the
  selector has the bits 0 and 5, and the cursor is at \<open>(0, 0)\<close>. The three ports have the
  IRQs 101, 102 and 100.
\<close>

definition scan_state :: xen_state where
  "scan_state =
     example_state
       \<lparr>evtchn_pending := (\<lambda>w. if w = 0 then 10 else if w = 5 then 1 else 0),
        evtchn_mask := (\<lambda>w. 0),
        xen_vcpu := (\<lambda>c. \<lparr>evtchn_upcall_pending = 1, evtchn_upcall_mask = 0,
                          evtchn_pending_sel = 33\<rparr>),
        cpu_evtchn_mask := (\<lambda>c w. if c = 0 then - 1 else 0),
        evtchn_to_irq := (\<lambda>p. if p = 1 then 101 else if p = 3 then 102
                               else if p = 320 then 100 else - 1)\<rparr>"

text \<open>
  A scan that resumes in the middle of word 0: only port 3 (IRQ 102) is pending, the cursor
  is at \<open>(0, 3)\<close>, and the handler of \<open>rescan_ext\<close> ends the interrupt the way
  \<open>ack_dynirq\<close> does, by unmasking port 3, while the event source raises the port again.
\<close>

definition rescan_ext :: ext where
  "rescan_ext = example_ext
     \<lparr>handle_irq := (\<lambda>irq s. s\<lparr>evtchn_mask := clear_bit_bm 3 (evtchn_mask s),
                                 evtchn_pending := set_bit_bm 3 (evtchn_pending s)\<rparr>)\<rparr>"

definition rescan_state :: xen_state where
  "rescan_state =
     example_state
       \<lparr>evtchn_pending := (\<lambda>w. if w = 0 then 8 else 0),
        evtchn_mask := (\<lambda>w. 0),
        xen_vcpu := (\<lambda>c. \<lparr>evtchn_upcall_pending = 1, evtchn_upcall_mask = 0,
                          evtchn_pending_sel = 1\<rparr>),
        cpu_evtchn_mask := (\<lambda>c w. if c = 0 then - 1 else 0),
        evtchn_to_irq := (\<lambda>p. if p = 3 then 102 else - 1),
        current_bit_idx := (\<lambda>c. 3)\<rparr>"

text \<open>
  The collaborators of \<open>example_ext\<close> with an interrupt core that accepts every
  registration.
\<close>

definition registering_ext :: ext where
  "registering_ext = example_ext\<lparr>request_irq := (\<lambda>irq flags s. (0, s))\<rparr>"

text \<open>
  The configuration in which port 7 has been bound with a handler before: the descriptor
  of IRQ 102 has an action.
\<close>

definition prebound_state :: xen_state where
  "prebound_state =
     example_state\<lparr>irq_descs := (irq_descs example_state)
       (102 \<mapsto> fresh_desc\<lparr>chip := xen_dynamic_chip, has_action := True\<rparr>)\<rparr>"

section \<open>Properties\<close>

subsection \<open>Bitmaps\<close>

lemma mod_BPL [simp]: "nr mod BITS_PER_LONG < 64"
  by (simp add: BITS_PER_LONG_def)

lemma test_set_same: "test_bit_bm p (set_bit_bm p bm)"
  by (simp add: test_bit_bm_def set_bit_bm_def bit_simps)

lemma test_clear_same: "\<not> test_bit_bm p (clear_bit_bm p bm)"
  by (simp add: test_bit_bm_def clear_bit_bm_def bit_simps)

lemma div_mod_neq:
  "p \<noteq> q \<Longrightarrow> p div BITS_PER_LONG = q div BITS_PER_LONG \<Longrightarrow>
     q mod BITS_PER_LONG \<noteq> p mod BITS_PER_LONG"
  by (metis div_mult_mod_eq)

lemma test_set_other: "p \<noteq> q \<Longrightarrow> test_bit_bm q (set_bit_bm p bm) = test_bit_bm q bm"
  by (auto simp: test_bit_bm_def set_bit_bm_def bit_simps dest: div_mod_neq)

lemma test_clear_other: "p \<noteq> q \<Longrightarrow> test_bit_bm q (clear_bit_bm p bm) = test_bit_bm q bm"
  by (auto simp: test_bit_bm_def clear_bit_bm_def bit_simps dest: div_mod_neq)

lemma test_set_bit_bm: "test_bit_bm q (set_bit_bm p bm) \<longleftrightarrow> q = p \<or> test_bit_bm q bm"
  using test_set_same test_set_other by metis

lemma test_clear_bit_bm: "test_bit_bm q (clear_bit_bm p bm) \<longleftrightarrow> q \<noteq> p \<and> test_bit_bm q bm"
  using test_clear_same test_clear_other by metis

subsection \<open>Pending state and polling of an unbound IRQ\<close>

text \<open>
  C9: for an IRQ whose \<open>irq_info\<close> has port 0, \<open>xen_clear_irq_pending\<close> and
  \<open>xen_set_irq_pending\<close> leave the state (so the shared pending bitmap) unchanged,
  \<open>xen_test_irq_pending\<close> returns false, and \<open>xen_poll_irq_timeout\<close> returns with the
  state, and so the trace of hypercalls, unchanged: no \<open>SCHEDOP_poll\<close> is issued.
\<close>

theorem unbound_irq_pending_noop:
  assumes "info_evtchn (irq_info s irq) = 0"
  shows "xen_clear_irq_pending irq s = s \<and> xen_set_irq_pending irq s = s \<and>
         xen_test_irq_pending irq s = False \<and>
         xen_poll_irq_timeout x irq timeout s = Inr s"
  using assms
  by (simp add: xen_clear_irq_pending_def xen_set_irq_pending_def xen_test_irq_pending_def
      xen_poll_irq_timeout_def evtchn_from_irq_def info_for_irq_def VALID_EVTCHN_def)

theorem unbound_irq_pending_noop_witness:
  "info_evtchn (irq_info example_state 5) = 0 \<and>
   xen_clear_irq_pending 5 example_state = example_state \<and>
   xen_set_irq_pending 5 example_state = example_state \<and>
   xen_test_irq_pending 5 example_state = False \<and>
   xen_poll_irq_timeout example_ext 5 1000 example_state = Inr example_state"
  using unbound_irq_pending_noop [of example_state 5 example_ext 1000]
  by (simp add: example_state_def mk_pirq_info_def zero_info_def ushort_def)

subsection \<open>Binding an existing key again\<close>

text \<open>
  C8: when \<open>(virq, cpu)\<close> is already bound, \<open>bind_virq_to_irq\<close> returns the IRQ of the
  per-CPU table and leaves the whole state as it was: no descriptor or \<open>irq_info\<close> slot is
  taken and the trace has no new hypercall. The same holds for \<open>bind_ipi_to_irq\<close> on a
  bound \<open>(ipi, cpu)\<close> and for \<open>bind_evtchn_to_irq\<close> on a port that has an IRQ.
\<close>

theorem bind_idempotent:
  "(virq_to_irq s cpu virq \<noteq> - 1 \<longrightarrow>
      bind_virq_to_irq x virq cpu s = Inr (virq_to_irq s cpu virq, s)) \<and>
   (ipi_to_irq s cpu ipi \<noteq> - 1 \<longrightarrow>
      bind_ipi_to_irq x ipi cpu s = Inr (ipi_to_irq s cpu ipi, s)) \<and>
   (evtchn_to_irq s evtchn \<noteq> - 1 \<longrightarrow>
      bind_evtchn_to_irq x evtchn s = Inr (evtchn_to_irq s evtchn, s))"
  by (simp add: bind_virq_to_irq_def bind_ipi_to_irq_def bind_evtchn_to_irq_def)

theorem bind_idempotent_witness:
  "virq_to_irq example_state 1 0 = 100 \<and>
   bind_virq_to_irq example_ext 0 1 example_state = Inr (100, example_state) \<and>
   ipi_to_irq example_state 0 0 = 101 \<and>
   bind_ipi_to_irq example_ext 0 0 example_state = Inr (101, example_state) \<and>
   evtchn_to_irq example_state 7 = 102 \<and>
   bind_evtchn_to_irq example_ext 7 example_state = Inr (102, example_state)"
  using bind_idempotent [of example_state 1 0 example_ext 0 7]
    bind_idempotent [of example_state 0 0 example_ext 0 7]
  by (simp add: example_state_def)

subsection \<open>Starting a physical interrupt\<close>

lemma pirq_eoi_returns:
  assumes "info_type (irq_info s irq) = IRQT_PIRQ" "irqs_disabled s"
  shows "\<exists>s'. pirq_eoi x cpu irq s = Inr s'"
  using assms
  by (simp add: pirq_eoi_def pirq_needs_eoi_def info_for_irq_def unmask_evtchn_def Let_def)

lemma pirq_eoi_err: "pirq_eoi x cpu irq s = Inl e \<Longrightarrow> e = BUG"
  by (auto simp: pirq_eoi_def pirq_needs_eoi_def info_for_irq_def unmask_evtchn_def Let_def
      split: if_splits sum.splits)

lemma pirq_query_unmask_err: "pirq_query_unmask x irq s = Inl e \<Longrightarrow> e = BUG"
  by (auto simp: pirq_query_unmask_def Let_def split: if_splits prod.splits)

lemma bind_evtchn_to_cpu_err: "bind_evtchn_to_cpu chn cpu s = Inl e \<Longrightarrow> e = BUG"
  by (auto simp: bind_evtchn_to_cpu_def Let_def split: if_splits)

lemma pirq_query_unmask_ok:
  assumes "info_type (irq_info s irq) = IRQT_PIRQ"
  shows "\<exists>s2. pirq_query_unmask x irq s = Inr s2 \<and> irq_info s2 = irq_info s \<and>
           irqs_disabled s2 = irqs_disabled s \<and> evtchn_to_irq s2 = evtchn_to_irq s"
  using assms
  by (simp add: pirq_query_unmask_def info_for_irq_def hypercall_def Let_def split: prod.splits)

lemma bind_evtchn_to_cpu_ok:
  assumes "evtchn_to_irq s chn \<noteq> - 1"
  shows "\<exists>s4. bind_evtchn_to_cpu chn cpu s = Inr s4 \<and> irqs_disabled s4 = irqs_disabled s \<and>
           (\<forall>i. info_type (irq_info s4 i) = info_type (irq_info s i))"
  using assms by (simp add: bind_evtchn_to_cpu_def Let_def)

lemma startup_pirq_err: "startup_pirq x cpu irq s = Inl e \<Longrightarrow> e = BUG"
  by (auto simp: startup_pirq_def Let_def split: if_splits sum.splits prod.splits
      dest: pirq_eoi_err pirq_query_unmask_err bind_evtchn_to_cpu_err)

lemma startup_pirq_val: "startup_pirq x cpu irq s = Inr (r, s') \<Longrightarrow> r = 0"
  by (auto simp: startup_pirq_def Let_def split: if_splits sum.splits prod.splits)

lemma startup_pirq_cases:
  "startup_pirq x cpu irq s = Inl BUG \<or> (\<exists>s'. startup_pirq x cpu irq s = Inr (0, s'))"
proof (cases "startup_pirq x cpu irq s")
  case (Inl e)
  then show ?thesis using startup_pirq_err by blast
next
  case (Inr p)
  then show ?thesis using startup_pirq_val [of x cpu irq s "fst p" "snd p"]
    by (cases p) auto
qed

lemma startup_pirq_total:
  assumes t: "info_type (irq_info s irq) = IRQT_PIRQ" and d: "irqs_disabled s"
  shows "\<exists>s'. startup_pirq x cpu irq s = Inr (0, s')"
proof (cases "VALID_EVTCHN (evtchn_from_irq s irq)")
  case True
  with t pirq_eoi_returns [OF t d, of x cpu] show ?thesis
    by (auto simp: startup_pirq_def info_for_irq_def Let_def)
next
  case False
  obtain rc port s1 where h: "hypercall x (EVTCHNOP_bind_pirq (u_pirq_gsi (irq_info s irq))
       (if (u_pirq_flags (irq_info s irq) AND PIRQ_SHAREABLE) \<noteq> 0 then BIND_PIRQ__WILL_SHARE else 0)) s
       = ((rc, port), s1)"
    by (metis prod.exhaust)
  then have s1: "irq_info s1 = irq_info s" "irqs_disabled s1 = irqs_disabled s"
    by (auto simp: hypercall_def)
  show ?thesis
  proof (cases "rc = 0")
    case False
    with \<open>\<not> VALID_EVTCHN (evtchn_from_irq s irq)\<close> t h show ?thesis
      by (simp add: startup_pirq_def info_for_irq_def Let_def)
  next
    case True
    from t s1 obtain s2 where s2: "pirq_query_unmask x irq s1 = Inr s2"
      "irq_info s2 = irq_info s1" "irqs_disabled s2 = irqs_disabled s1"
      using pirq_query_unmask_ok [of s1 irq x] by auto
    let ?s3 = "s2\<lparr>evtchn_to_irq := (evtchn_to_irq s2) (port := int irq)\<rparr>"
    obtain s4 where s4: "bind_evtchn_to_cpu port 0 ?s3 = Inr s4"
      "irqs_disabled s4 = irqs_disabled ?s3"
      "\<forall>i. info_type (irq_info s4 i) = info_type (irq_info ?s3 i)"
      using bind_evtchn_to_cpu_ok [of ?s3 port 0] by auto
    let ?s5 = "s4\<lparr>irq_info := (irq_info s4)
                 (irq := (irq_info s4 irq)\<lparr>info_evtchn := ushort port\<rparr>)\<rparr>"
    have "info_type (irq_info ?s5 irq) = IRQT_PIRQ" "irqs_disabled ?s5"
      using s4 s2 s1 t d by auto
    then obtain s' where "pirq_eoi x cpu irq ?s5 = Inr s'"
      using pirq_eoi_returns by blast
    with True \<open>\<not> VALID_EVTCHN (evtchn_from_irq s irq)\<close> t h s2 s4 show ?thesis
      by (simp add: startup_pirq_def info_for_irq_def Let_def)
  qed
qed

text \<open>
  C10: \<open>startup_pirq\<close> never returns anything but 0. On every input its result is
  either the kernel \<open>BUG\<close> of one of its assertions or the return value 0; and on an
  IRQ of type PIRQ, with interrupts disabled, it does return 0, whether the port was bound
  already, the \<open>EVTCHNOP_bind_pirq\<close> hypercall failed or it succeeded.
\<close>

theorem startup_pirq_returns_zero:
  "(startup_pirq x cpu irq s = Inl BUG \<or> (\<exists>s'. startup_pirq x cpu irq s = Inr (0, s'))) \<and>
   (info_type (irq_info s irq) = IRQT_PIRQ \<and> irqs_disabled s \<longrightarrow>
      (\<exists>s'. startup_pirq x cpu irq s = Inr (0, s')))"
  using startup_pirq_cases startup_pirq_total by blast

theorem startup_pirq_returns_zero_witness:
  "info_type (irq_info example_state 5) = IRQT_PIRQ \<and> irqs_disabled example_state \<and>
   info_evtchn (irq_info example_state 5) = 0 \<and>
   fst (hv example_ext [] (EVTCHNOP_bind_pirq 5 0)) \<noteq> 0 \<and>
   (\<exists>s'. startup_pirq example_ext 0 5 example_state = Inr (0, s')) \<and>
   fst (hv (example_ext\<lparr>hv := \<lambda>t op. (0, 60)\<rparr>) [] (EVTCHNOP_bind_pirq 5 0)) = 0 \<and>
   (\<exists>s'. startup_pirq (example_ext\<lparr>hv := \<lambda>t op. (0, 60)\<rparr>) 0 5 example_state =
      Inr (0, s')) \<and>
   info_type (irq_info example_state 6) = IRQT_PIRQ \<and>
   info_evtchn (irq_info example_state 6) = 9 \<and>
   (\<exists>s'. startup_pirq example_ext 0 6 example_state = Inr (0, s'))"
  using startup_pirq_returns_zero [of example_ext 0 5 example_state]
    startup_pirq_returns_zero [of "example_ext\<lparr>hv := \<lambda>t op. (0, 60)\<rparr>" 0 5 example_state]
    startup_pirq_returns_zero [of example_ext 0 6 example_state]
  by (simp add: example_state_def example_ext_def mk_pirq_info_def zero_info_def ushort_def)

subsection \<open>Unmasking\<close>

text \<open>
  C4, as the code has it: let \<open>p\<close> be the valid port of \<open>irq\<close>
  (\<open>0 < p < BITS_PER_LONG * BITS_PER_LONG\<close>) and let interrupts be disabled. When \<open>p\<close>
  is bound to the current CPU, \<open>unmask_irq\<close> issues no hypercall and clears
  \<open>mask[p]\<close>; when moreover \<open>pending[p]\<close> is set it sets the selector bit
  \<open>p / BITS_PER_LONG\<close>, and it raises \<open>evtchn_upcall_pending\<close> when that selector bit
  was clear before, leaving the flag as it was when the bit was already set. When the home
  CPU of \<open>p\<close> is another CPU the only effect is the \<open>EVTCHNOP_unmask\<close> hypercall.
\<close>

theorem unmask_irq_local:
  assumes port: "info_evtchn (irq_info s irq) = p" "p \<noteq> 0"
    "p < BITS_PER_LONG * BITS_PER_LONG"
    and irqs: "irqs_disabled s"
  shows "(cpu_from_evtchn s p = cpu \<longrightarrow>
          (\<exists>s'. unmask_irq x cpu irq s = Inr s' \<and> trace s' = trace s \<and>
             \<not> test_bit_bm p (evtchn_mask s') \<and>
             (test_bit_bm p (evtchn_pending s) \<longrightarrow>
                bit (evtchn_pending_sel (xen_vcpu s' cpu)) (p div BITS_PER_LONG) \<and>
                evtchn_upcall_pending (xen_vcpu s' cpu) =
                  (if bit (evtchn_pending_sel (xen_vcpu s cpu)) (p div BITS_PER_LONG)
                   then evtchn_upcall_pending (xen_vcpu s cpu) else 1)))) \<and>
         (cpu_from_evtchn s p \<noteq> cpu \<longrightarrow>
            unmask_irq x cpu irq s =
              Inr (s\<lparr>trace := trace s @ [Hypercall (EVTCHNOP_unmask p)]\<rparr>))"
  using assms
  by (auto simp: unmask_irq_def unmask_evtchn_def evtchn_from_irq_def info_for_irq_def
      VALID_EVTCHN_def Let_def test_clear_bit_bm bit_simps hypercall_def BITS_PER_LONG_def
      less_mult_imp_div_less)

theorem unmask_irq_local_witness:
  "info_evtchn (irq_info example_state 102) = 7 \<and> (7::nat) \<noteq> 0 \<and>
   7 < BITS_PER_LONG * BITS_PER_LONG \<and> irqs_disabled example_state \<and>
   cpu_from_evtchn example_state 7 = 0 \<and> test_bit_bm 7 (evtchn_mask example_state) \<and>
   test_bit_bm 7 (evtchn_pending example_state) \<and>
   (\<exists>s'. unmask_irq example_ext 0 102 example_state = Inr s' \<and> trace s' = [] \<and>
      \<not> test_bit_bm 7 (evtchn_mask s') \<and>
      bit (evtchn_pending_sel (xen_vcpu s' 0)) 0 \<and>
      evtchn_upcall_pending (xen_vcpu s' 0) = 1)"
  using unmask_irq_local [of example_state 102 7 0 example_ext]
  by (simp add: example_state_def cpu_from_evtchn_def
      cpu_from_irq_def info_for_irq_def mk_evtchn_info_def zero_info_def ushort_def test_bit_bm_def
      BITS_PER_LONG_def)

text \<open>
  C4 as stated fails: port 7 is bound to CPU 0, masked and pending, the selector bit
  of its word is already set and \<open>evtchn_upcall_pending\<close> is 0; after \<open>unmask_irq\<close>
  the flag is still 0.
\<close>

theorem unmask_sets_upcall_pending_counterexample:
  "info_evtchn (irq_info scenario_sel_state 102) = 7 \<and>
   cpu_from_evtchn scenario_sel_state 7 = 0 \<and>
   test_bit_bm 7 (evtchn_mask scenario_sel_state) \<and>
   test_bit_bm 7 (evtchn_pending scenario_sel_state) \<and>
   irqs_disabled scenario_sel_state \<and>
   evtchn_upcall_pending (xen_vcpu scenario_sel_state 0) = 0 \<and>
   unmask_irq example_ext 0 102 scenario_sel_state =
     Inr (scenario_sel_state
           \<lparr>evtchn_mask := clear_bit_bm 7 (evtchn_mask scenario_sel_state),
            xen_vcpu := (xen_vcpu scenario_sel_state)
              (0 := \<lparr>evtchn_upcall_pending = 0, evtchn_upcall_mask = 0,
                      evtchn_pending_sel = 1\<rparr>)\<rparr>)"
  by (simp add: scenario_sel_state_def example_state_def unmask_irq_def unmask_evtchn_def
      evtchn_from_irq_def info_for_irq_def VALID_EVTCHN_def Let_def cpu_from_evtchn_def
      cpu_from_irq_def mk_evtchn_info_def zero_info_def ushort_def test_bit_bm_def
      clear_bit_bm_def BITS_PER_LONG_def)

subsection \<open>End of interrupt of a physical IRQ\<close>

text \<open>
  C2, as the code has it: for an IRQ of type PIRQ with port \<open>p\<close> and GSI \<open>gsi\<close>, with
  interrupts disabled and \<open>p\<close> masked, \<open>pirq_eoi\<close> unmasks the port (clears
  \<open>mask[p]\<close> for a port of the current CPU, issues \<open>EVTCHNOP_unmask\<close> for a port of
  another CPU) exactly when the bit of the GSI in \<open>pirq_needs_eoi\<close> is clear or the
  hypervisor did \<^emph>\<open>not\<close> advertise that its EOI unmasks
  (\<open>pirq_eoi_does_unmask\<close> is false); and it issues \<open>PHYSDEVOP_eoi(gsi)\<close> exactly when
  the bit is set.
\<close>

theorem pirq_eoi_unmask_and_eoi:
  assumes "info_type (irq_info s irq) = IRQT_PIRQ" "irqs_disabled s"
    and "info_evtchn (irq_info s irq) = p" "u_pirq_gsi (irq_info s irq) = gsi"
    and "test_bit_bm p (evtchn_mask s)"
  shows "\<exists>s'. pirq_eoi x cpu irq s = Inr s' \<and>
           trace s' = trace s
             @ (if (\<not> test_bit_bm gsi (pirq_needs_eoi_bits s) \<or> \<not> pirq_eoi_does_unmask s)
                    \<and> cpu_from_evtchn s p \<noteq> cpu
                then [Hypercall (EVTCHNOP_unmask p)] else [])
             @ (if test_bit_bm gsi (pirq_needs_eoi_bits s)
                then [Hypercall (PHYSDEVOP_eoi gsi)] else []) \<and>
           (cpu_from_evtchn s p = cpu \<longrightarrow>
              (\<not> test_bit_bm p (evtchn_mask s') \<longleftrightarrow>
                 \<not> test_bit_bm gsi (pirq_needs_eoi_bits s) \<or> \<not> pirq_eoi_does_unmask s))"
  using assms
  by (auto simp: pirq_eoi_def pirq_needs_eoi_def info_for_irq_def unmask_evtchn_def Let_def
      hypercall_def test_clear_bit_bm)

theorem pirq_eoi_unmask_and_eoi_witness:
  "info_type (irq_info example_state 6) = IRQT_PIRQ \<and> irqs_disabled example_state \<and>
   info_evtchn (irq_info example_state 6) = 9 \<and> u_pirq_gsi (irq_info example_state 6) = 6 \<and>
   test_bit_bm 9 (evtchn_mask example_state) \<and>
   (\<exists>s'. pirq_eoi example_ext 0 6 example_state = Inr s' \<and>
      trace s' = [Hypercall (PHYSDEVOP_eoi 6)] \<and> test_bit_bm 9 (evtchn_mask s'))"
  using pirq_eoi_unmask_and_eoi [of example_state 6 9 6 example_ext 0]
  by (simp add: example_state_def mk_pirq_info_def zero_info_def ushort_def test_bit_bm_def
      BITS_PER_LONG_def cpu_from_evtchn_def cpu_from_irq_def info_for_irq_def)

text \<open>
  C2 as stated fails: the GSI of IRQ 6 needs an EOI and the hypervisor advertised
  the shared bitmap, so the claim expects a local unmask of the masked port 9; the code
  only issues \<open>PHYSDEVOP_eoi\<close> and leaves the state, with port 9 masked, as it was.
\<close>

theorem pirq_eoi_unmask_counterexample:
  "info_type (irq_info example_state 6) = IRQT_PIRQ \<and>
   u_pirq_gsi (irq_info example_state 6) = 6 \<and>
   info_evtchn (irq_info example_state 6) = 9 \<and>
   test_bit_bm 6 (pirq_needs_eoi_bits example_state) \<and>
   pirq_eoi_does_unmask example_state \<and>
   test_bit_bm 9 (evtchn_mask example_state) \<and>
   pirq_eoi example_ext 0 6 example_state =
     Inr (example_state\<lparr>trace := [Hypercall (PHYSDEVOP_eoi 6)]\<rparr>)"
  by (simp add: example_state_def mk_pirq_info_def zero_info_def ushort_def test_bit_bm_def
      BITS_PER_LONG_def pirq_eoi_def pirq_needs_eoi_def info_for_irq_def Let_def hypercall_def)


subsection \<open>Resume\<close>

lemma fold_set_bit_bm:
  "test_bit_bm p (fold set_bit_bm ps bm) \<longleftrightarrow> p \<in> set ps \<or> test_bit_bm p bm"
  by (induction ps arbitrary: bm) (auto simp: test_set_bit_bm)

lemma fold_mask_evtchn:
  "fold mask_evtchn ps s = s\<lparr>evtchn_mask := fold set_bit_bm ps (evtchn_mask s)\<rparr>"
  by (induction ps arbitrary: s) (auto simp: mask_evtchn_def)

lemma fold_zap_evtchn:
  "fold (\<lambda>irq s'. s'\<lparr>irq_info := (irq_info s')
            (irq := (irq_info s' irq)\<lparr>info_evtchn := 0\<rparr>)\<rparr>) is s =
     s\<lparr>irq_info := fold (\<lambda>irq f. f (irq := (f irq)\<lparr>info_evtchn := 0\<rparr>)) is (irq_info s)\<rparr>"
  by (induction "is" arbitrary: s) auto

lemma fold_zap_apply:
  "fold (\<lambda>irq f. f (irq := (f irq)\<lparr>info_evtchn := 0\<rparr>)) is f i =
     (if i \<in> set is then (f i)\<lparr>info_evtchn := 0\<rparr> else f i)"
  by (induction "is" arbitrary: f) auto

lemma fold_clear_evtchn_to_irq:
  "fold (\<lambda>evtchn s'. s'\<lparr>evtchn_to_irq := (evtchn_to_irq s') (evtchn := - 1)\<rparr>) ps s =
     s\<lparr>evtchn_to_irq := fold (\<lambda>evtchn f. f (evtchn := - 1)) ps (evtchn_to_irq s)\<rparr>"
  by (induction ps arbitrary: s) auto

lemma fold_clear_apply:
  "fold (\<lambda>evtchn f. f (evtchn := - 1)) ps f p = (if p \<in> set ps then - 1 else f (p::nat) :: int)"
  by (induction ps arbitrary: f) auto

lemma fold_cpu_bindings:
  "fold memset_cpu_evtchn_mask cs s =
     s\<lparr>cpu_evtchn_mask := cpu_evtchn_mask (fold memset_cpu_evtchn_mask cs s)\<rparr>"
proof (induction cs arbitrary: s)
  case Nil
  show ?case by simp
next
  case (Cons a as)
  let ?s1 = "memset_cpu_evtchn_mask a s"
  have "fold memset_cpu_evtchn_mask as ?s1 =
          ?s1\<lparr>cpu_evtchn_mask := cpu_evtchn_mask (fold memset_cpu_evtchn_mask as ?s1)\<rparr>"
    by (rule Cons.IH)
  also have "\<dots> = s\<lparr>cpu_evtchn_mask := cpu_evtchn_mask (fold memset_cpu_evtchn_mask as ?s1)\<rparr>"
    by (simp add: memset_cpu_evtchn_mask_def)
  finally show ?case by simp
qed

lemma init_evtchn_cpu_bindings_frame:
  "\<exists>m. init_evtchn_cpu_bindings s = s\<lparr>cpu_evtchn_mask := m\<rparr>"
  unfolding init_evtchn_cpu_bindings_def using fold_cpu_bindings by blast

text \<open>
  C6: after the first part of \<open>xen_irq_resume\<close> (before any VIRQ or IPI is bound
  again) every \<open>irq_info\<close> record below \<open>nr_irqs\<close> is the record of the state before
  resume with the port set to 0, so that its type, its CPU and its type-specific fields
  are unchanged; every entry of \<open>evtchn_to_irq\<close> below \<open>NR_EVENT_CHANNELS\<close> is
  \<open>-1\<close>; and every such port is masked in the shared mask bitmap.
\<close>

theorem resume_invalidate:
  "(\<forall>irq < nr_irqs s.
      irq_info (xen_irq_resume_invalidate s) irq = (irq_info s irq)\<lparr>info_evtchn := 0\<rparr>) \<and>
   (\<forall>p < nr_event_channels s.
      evtchn_to_irq (xen_irq_resume_invalidate s) p = - 1 \<and>
      test_bit_bm p (evtchn_mask (xen_irq_resume_invalidate s)))"
proof -
  obtain m where m: "init_evtchn_cpu_bindings s = s\<lparr>cpu_evtchn_mask := m\<rparr>"
    using init_evtchn_cpu_bindings_frame by blast
  show ?thesis
    by (simp add: xen_irq_resume_invalidate_def Let_def m fold_mask_evtchn fold_zap_evtchn
        fold_clear_evtchn_to_irq fold_set_bit_bm fold_zap_apply fold_clear_apply)
qed

theorem resume_invalidate_witness:
  "(100::nat) < nr_irqs example_state \<and> (42::nat) < nr_event_channels example_state \<and>
   irq_info example_state 100 = (mk_virq_info 42 0)\<lparr>info_cpu := 1\<rparr> \<and>
   \<not> test_bit_bm 42 (evtchn_mask example_state) \<and>
   evtchn_to_irq example_state 42 = 100 \<and>
   irq_info (xen_irq_resume_invalidate example_state) 100 =
     (mk_virq_info 0 0)\<lparr>info_cpu := 1\<rparr> \<and>
   evtchn_to_irq (xen_irq_resume_invalidate example_state) 42 = - 1 \<and>
   test_bit_bm 42 (evtchn_mask (xen_irq_resume_invalidate example_state))"
proof -
  have bounds: "(100::nat) < nr_irqs example_state"
    "(42::nat) < nr_event_channels example_state"
    by (simp_all add: example_state_def)
  have before: "irq_info example_state 100 = (mk_virq_info 42 0)\<lparr>info_cpu := 1\<rparr>"
    "\<not> test_bit_bm 42 (evtchn_mask example_state)"
    "evtchn_to_irq example_state 42 = 100"
    by (simp_all add: example_state_def test_bit_bm_def BITS_PER_LONG_def)
  from resume_invalidate [of example_state] bounds
  have after: "irq_info (xen_irq_resume_invalidate example_state) 100 =
      (irq_info example_state 100)\<lparr>info_evtchn := 0\<rparr>"
    "evtchn_to_irq (xen_irq_resume_invalidate example_state) 42 = - 1"
    "test_bit_bm 42 (evtchn_mask (xen_irq_resume_invalidate example_state))"
    by blast+
  from bounds before after show ?thesis
    by (simp add: mk_virq_info_def zero_info_def ushort_def)
qed


subsection \<open>Unbinding\<close>

lemma unbind_from_irq_unbound:
  assumes "unbind_from_irq x irq s = Inr s'"
  shows "info_type (irq_info s' irq) = IRQT_UNBOUND"
  using assms
  by (auto simp: unbind_from_irq_def Let_def dynamic_irq_cleanup_def mk_unbound_info_def
      zero_info_def split: sum.splits if_splits prod.splits option.splits)

lemma unbind_from_irq_no_port:
  assumes "info_evtchn (irq_info s irq) = 0"
  shows "unbind_from_irq x irq s =
     Inr (if info_type (irq_info s irq) \<noteq> IRQT_UNBOUND
          then dynamic_irq_cleanup irq (s\<lparr>irq_info := (irq_info s) (irq := mk_unbound_info)\<rparr>)
          else s)"
  using assms
  by (simp add: unbind_from_irq_def Let_def evtchn_from_irq_def info_for_irq_def
      VALID_EVTCHN_def)

lemma dynamic_irq_cleanup_fields [simp]:
  "trace (dynamic_irq_cleanup irq s) = trace s"
  "evtchn_to_irq (dynamic_irq_cleanup irq s) = evtchn_to_irq s"
  "cpu_evtchn_mask (dynamic_irq_cleanup irq s) = cpu_evtchn_mask s"
  "virq_to_irq (dynamic_irq_cleanup irq s) = virq_to_irq s"
  "ipi_to_irq (dynamic_irq_cleanup irq s) = ipi_to_irq s"
  "irq_info (dynamic_irq_cleanup irq s) = irq_info s"
  by (simp_all add: dynamic_irq_cleanup_def split: option.splits)

lemmas unbind_defs = unbind_from_irq_def Let_def evtchn_from_irq_def info_for_irq_def
  VALID_EVTCHN_def hypercall_def type_from_irq_def virq_from_irq_def ipi_from_irq_def
  cpu_from_evtchn_def cpu_from_irq_def bind_evtchn_to_cpu_def case_prod_beta

lemma unbind_from_irq_port:
  assumes p: "info_evtchn (irq_info s irq) = p" "p \<noteq> 0"
    and e2i: "evtchn_to_irq s p = int irq"
    and ret: "unbind_from_irq x irq s = Inr s'"
  shows "trace s' = trace s @ [Hypercall (EVTCHNOP_close p)]"
    and "evtchn_to_irq s' = (evtchn_to_irq s) (p := - 1)"
    and "cpu_evtchn_mask s' 0 =
           set_bit_bm p (((cpu_evtchn_mask s)
             (info_cpu (irq_info s irq) :=
                clear_bit_bm p (cpu_evtchn_mask s (info_cpu (irq_info s irq))))) 0)"
    and "c \<noteq> 0 \<Longrightarrow> cpu_evtchn_mask s' c =
           ((cpu_evtchn_mask s)
             (info_cpu (irq_info s irq) :=
                clear_bit_bm p (cpu_evtchn_mask s (info_cpu (irq_info s irq))))) c"
    and "info_type (irq_info s irq) = IRQT_VIRQ \<Longrightarrow>
           virq_to_irq s' (info_cpu (irq_info s irq)) (u_virq (irq_info s irq)) = - 1"
    and "info_type (irq_info s irq) = IRQT_IPI \<Longrightarrow>
           ipi_to_irq s' (info_cpu (irq_info s irq)) (u_ipi (irq_info s irq)) = - 1"
  using assms
  by (cases "info_type (irq_info s irq)";
      cases "fst (hv x (trace s) (EVTCHNOP_close p)) = 0";
      auto simp: unbind_defs)+


lemma unbind_from_irq_returns:
  assumes "info_evtchn (irq_info s irq) = p"
    and "p \<noteq> 0 \<longrightarrow> evtchn_to_irq s p \<noteq> - 1 \<and> fst (hv x (trace s) (EVTCHNOP_close p)) = 0"
  shows "\<exists>s'. unbind_from_irq x irq s = Inr s'"
  using assms
  by (cases "info_type (irq_info s irq)"; cases "p = 0"; simp add: unbind_defs)

text \<open>
  C5: let \<open>unbind_from_irq\<close> return on a state in which exactly the IRQ's own valid port
  maps to it in \<open>evtchn_to_irq\<close> (invariant I2 of the data model) and in which a VIRQ or
  IPI has a valid port (invariant I1). Then the IRQ is unbound, no entry of
  \<open>evtchn_to_irq\<close> maps to it, the per-CPU reverse entry of a VIRQ or an IPI, at the CPU
  and number of the binding, is \<open>-1\<close>, the trace grew by \<open>EVTCHNOP_close\<close> of the port
  exactly when the port was valid, and the closed port is set in the port mask of CPU 0,
  cleared in that of the CPU it was bound to, and unchanged in every other mask.
\<close>

theorem unbind_from_irq_post:
  assumes ret: "unbind_from_irq x irq s = Inr s'"
    and own: "\<forall>p. evtchn_to_irq s p = int irq \<longleftrightarrow>
                  p = info_evtchn (irq_info s irq) \<and> p \<noteq> 0"
    and percpu: "info_type (irq_info s irq) \<in> {IRQT_VIRQ, IRQT_IPI} \<longrightarrow>
                   info_evtchn (irq_info s irq) \<noteq> 0"
  shows "info_type (irq_info s' irq) = IRQT_UNBOUND \<and>
         (\<forall>p. evtchn_to_irq s' p \<noteq> int irq) \<and>
         (info_type (irq_info s irq) = IRQT_VIRQ \<longrightarrow>
            virq_to_irq s' (info_cpu (irq_info s irq)) (u_virq (irq_info s irq)) = - 1) \<and>
         (info_type (irq_info s irq) = IRQT_IPI \<longrightarrow>
            ipi_to_irq s' (info_cpu (irq_info s irq)) (u_ipi (irq_info s irq)) = - 1) \<and>
         trace s' = trace s @
           (if info_evtchn (irq_info s irq) \<noteq> 0
            then [Hypercall (EVTCHNOP_close (info_evtchn (irq_info s irq)))] else []) \<and>
         (info_evtchn (irq_info s irq) \<noteq> 0 \<longrightarrow>
            (\<forall>c. test_bit_bm (info_evtchn (irq_info s irq)) (cpu_evtchn_mask s' c) \<longleftrightarrow>
                   c = 0 \<or> (c \<noteq> info_cpu (irq_info s irq) \<and>
                     test_bit_bm (info_evtchn (irq_info s irq)) (cpu_evtchn_mask s c))))"
proof (cases "info_evtchn (irq_info s irq) = 0")
  case True
  with ret have "evtchn_to_irq s' = evtchn_to_irq s" "trace s' = trace s"
    by (auto simp: unbind_from_irq_no_port split: if_splits)
  with True own percpu unbind_from_irq_unbound [OF ret] show ?thesis
    by auto
next
  case False
  define p where "p = info_evtchn (irq_info s irq)"
  with False own have p: "info_evtchn (irq_info s irq) = p" "p \<noteq> 0" "evtchn_to_irq s p = int irq"
    by auto
  note post = unbind_from_irq_port [OF p ret]
  have "\<forall>q. evtchn_to_irq s' q \<noteq> int irq"
    using post(2) own p by auto
  moreover have "\<forall>c. test_bit_bm p (cpu_evtchn_mask s' c) \<longleftrightarrow>
      c = 0 \<or> (c \<noteq> info_cpu (irq_info s irq) \<and> test_bit_bm p (cpu_evtchn_mask s c))"
  proof
    fix c
    show "test_bit_bm p (cpu_evtchn_mask s' c) \<longleftrightarrow>
      c = 0 \<or> (c \<noteq> info_cpu (irq_info s irq) \<and> test_bit_bm p (cpu_evtchn_mask s c))"
      using post(3) post(4) [of c] by (cases "c = 0") (auto simp: test_set_same test_clear_same)
  qed
  ultimately show ?thesis
    using unbind_from_irq_unbound [OF ret] post(1) post(5) post(6) p by simp
qed

theorem unbind_from_irq_post_witness:
  "(\<forall>p. evtchn_to_irq example_state p = int 100 \<longleftrightarrow>
        p = info_evtchn (irq_info example_state 100) \<and> p \<noteq> 0) \<and>
   info_type (irq_info example_state 100) = IRQT_VIRQ \<and>
   info_evtchn (irq_info example_state 100) = 42 \<and>
   info_cpu (irq_info example_state 100) = 1 \<and>
   u_virq (irq_info example_state 100) = 0 \<and>
   virq_to_irq example_state 1 0 = 100 \<and>
   (\<exists>s'. unbind_from_irq example_ext 100 example_state = Inr s' \<and>
      info_type (irq_info s' 100) = IRQT_UNBOUND \<and>
      (\<forall>p. evtchn_to_irq s' p \<noteq> 100) \<and>
      virq_to_irq s' 1 0 = - 1 \<and>
      trace s' = [Hypercall (EVTCHNOP_close 42)] \<and>
      test_bit_bm 42 (cpu_evtchn_mask s' 0) \<and> \<not> test_bit_bm 42 (cpu_evtchn_mask s' 1))"
proof -
  have pre: "\<forall>p. evtchn_to_irq example_state p = int 100 \<longleftrightarrow>
        p = info_evtchn (irq_info example_state 100) \<and> p \<noteq> 0"
    "info_type (irq_info example_state 100) = IRQT_VIRQ"
    "info_evtchn (irq_info example_state 100) = 42"
    "info_cpu (irq_info example_state 100) = 1"
    "u_virq (irq_info example_state 100) = 0"
    "virq_to_irq example_state 1 0 = 100"
    "trace example_state = []"
    by (simp_all add: example_state_def mk_virq_info_def zero_info_def ushort_def)
  have "evtchn_to_irq example_state 42 \<noteq> - 1"
    "fst (hv example_ext (trace example_state) (EVTCHNOP_close 42)) = 0"
    by (simp_all add: example_state_def example_ext_def)
  with pre(3) obtain s' where ret: "unbind_from_irq example_ext 100 example_state = Inr s'"
    using unbind_from_irq_returns [of example_state 100 42 example_ext] by auto
  from unbind_from_irq_post [OF ret pre(1)] pre ret show ?thesis
    by auto
qed


subsection \<open>Rolling back a failed registration\<close>

text \<open>
  What a bind step that starts from an unbound key leaves behind, field by field, and what
  \<open>unbind_from_irq\<close> makes of the fields that the lemmas of the previous subsection do
  not cover.
\<close>

lemma find_unbound_irq_state:
  assumes "find_unbound_irq x s = Inr (irq, s0)" "0 \<le> irq"
  shows "s0 = s\<lparr>irq_descs := (irq_descs s) (nat irq \<mapsto> fresh_desc)\<rparr>"
  using assms
  by (auto simp: find_unbound_irq_def Let_def get_nr_hw_irqs_def irq_to_desc_alloc_node_def
      dynamic_irq_init_keep_chip_data_def dynamic_irq_init_def
      split: if_splits option.splits)

lemma unbind_from_irq_rest:
  assumes p: "info_evtchn (irq_info s irq) = p" "p \<noteq> 0"
    and e2i: "evtchn_to_irq s p = int irq"
    and ty: "info_type (irq_info s irq) \<noteq> IRQT_UNBOUND"
    and ret: "unbind_from_irq x irq s = Inr s'"
  shows "irq_info s' = (irq_info s) (irq := mk_unbound_info)"
    and "irq_descs s' =
           (case irq_descs s irq of None \<Rightarrow> irq_descs s
            | Some d \<Rightarrow> if has_action d then irq_descs s
                        else (irq_descs s) (irq \<mapsto> fresh_desc))"
    and "evtchn_mask s' = evtchn_mask s" and "evtchn_pending s' = evtchn_pending s"
    and "virq_to_irq s' =
           (if info_type (irq_info s irq) = IRQT_VIRQ
            then (virq_to_irq s) (info_cpu (irq_info s irq) :=
                   (virq_to_irq s (info_cpu (irq_info s irq))) (u_virq (irq_info s irq) := - 1))
            else virq_to_irq s)"
    and "ipi_to_irq s' =
           (if info_type (irq_info s irq) = IRQT_IPI
            then (ipi_to_irq s) (info_cpu (irq_info s irq) :=
                   (ipi_to_irq s (info_cpu (irq_info s irq))) (u_ipi (irq_info s irq) := - 1))
            else ipi_to_irq s)"
  using assms
  by (cases "info_type (irq_info s irq)";
      cases "fst (hv x (trace s) (EVTCHNOP_close p)) = 0";
      cases "irq_descs s irq";
      auto simp: unbind_defs dynamic_irq_cleanup_def)+

lemma bind_evtchn_to_irq_fresh:
  assumes "evtchn_to_irq s evtchn = - 1" "bind_evtchn_to_irq x evtchn s = Inr (irq, s1)"
  shows "0 \<le> irq \<and>
         s1 = s\<lparr>irq_descs := (irq_descs s) (nat irq \<mapsto> fresh_desc\<lparr>chip := xen_dynamic_chip\<rparr>),
                evtchn_to_irq := (evtchn_to_irq s) (evtchn := irq),
                irq_info := (irq_info s) (nat irq := mk_evtchn_info evtchn)\<rparr>"
proof (cases "find_unbound_irq x s")
  case (Inl e)
  with assms show ?thesis by (simp add: bind_evtchn_to_irq_def)
next
  case (Inr r)
  obtain irq0 s0 where r: "r = (irq0, s0)" by (cases r)
  with Inr assms have irq0: "0 \<le> irq0" "irq = irq0"
    by (auto simp: bind_evtchn_to_irq_def Let_def split: if_splits)
  from find_unbound_irq_state [of x s irq0 s0] Inr r irq0
  have "s0 = s\<lparr>irq_descs := (irq_descs s) (nat irq0 \<mapsto> fresh_desc)\<rparr>" by simp
  with Inr r irq0 assms show ?thesis
    by (simp add: bind_evtchn_to_irq_def Let_def set_irq_chip_and_handler_name_def)
qed

lemma rollback_evtchn:
  assumes fresh: "evtchn_to_irq s evtchn = - 1" and port: "0 < evtchn" "evtchn < 65536"
    and bind: "bind_evtchn_to_irq x evtchn s = Inr (irq, s1)"
    and close: "fst (hv x (trace s1) (EVTCHNOP_close evtchn)) = 0"
  shows "\<exists>s3. unbind_from_irq x (nat irq) s1 = Inr s3 \<and> rolled_back s s1 (nat irq) evtchn s3"
proof -
  from bind_evtchn_to_irq_fresh [OF fresh bind]
  have irq: "0 \<le> irq"
    and s1: "s1 = s\<lparr>irq_descs := (irq_descs s) (nat irq \<mapsto> fresh_desc\<lparr>chip := xen_dynamic_chip\<rparr>),
                evtchn_to_irq := (evtchn_to_irq s) (evtchn := irq),
                irq_info := (irq_info s) (nat irq := mk_evtchn_info evtchn)\<rparr>"
    by auto
  have pre: "info_evtchn (irq_info s1 (nat irq)) = evtchn" "evtchn \<noteq> 0"
    "evtchn_to_irq s1 evtchn = int (nat irq)"
    "info_type (irq_info s1 (nat irq)) \<noteq> IRQT_UNBOUND"
    using port irq by (simp_all add: s1 mk_evtchn_info_def zero_info_def ushort_def)
  from pre close obtain s3 where ret: "unbind_from_irq x (nat irq) s1 = Inr s3"
    using unbind_from_irq_returns [of s1 "nat irq" evtchn x] irq by auto
  note a = unbind_from_irq_port [OF pre(1-3) ret] and b = unbind_from_irq_rest [OF pre ret]
  have "rolled_back s s1 (nat irq) evtchn s3"
    unfolding rolled_back_def
    using a(1,2,3) a(4) b fresh
    by (simp add: s1 mk_evtchn_info_def zero_info_def fresh_desc_def test_set_same
        test_clear_bit_bm)
  with ret show ?thesis by blast
qed

lemma bind_virq_to_irq_fresh:
  assumes "virq_to_irq s cpu virq = - 1" "bind_virq_to_irq x virq cpu s = Inr (irq, s1)"
    and "port = snd (hv x (trace s) (EVTCHNOP_bind_virq virq cpu))"
  shows "0 \<le> irq"
    and "trace s1 = trace s @ [Hypercall (EVTCHNOP_bind_virq virq cpu)]"
    and "evtchn_to_irq s1 = (evtchn_to_irq s) (port := irq)"
    and "irq_info s1 = (irq_info s)
           (nat irq := (mk_virq_info port virq)\<lparr>info_cpu := ushort cpu\<rparr>)"
    and "virq_to_irq s1 = (virq_to_irq s) (cpu := (virq_to_irq s cpu) (virq := irq))"
    and "ipi_to_irq s1 = ipi_to_irq s"
    and "irq_descs s1 = (irq_descs s) (nat irq \<mapsto> fresh_desc\<lparr>chip := xen_percpu_chip\<rparr>)"
    and "cpu_evtchn_mask s1 =
           ((cpu_evtchn_mask s) (0 := clear_bit_bm port (cpu_evtchn_mask s 0)))
             (cpu := set_bit_bm port
                (((cpu_evtchn_mask s) (0 := clear_bit_bm port (cpu_evtchn_mask s 0))) cpu))"
    and "evtchn_mask s1 = evtchn_mask s" and "evtchn_pending s1 = evtchn_pending s"
proof -
  obtain irq0 s0 where f: "find_unbound_irq x s = Inr (irq0, s0)"
    using assms(1,2) by (cases "find_unbound_irq x s") (auto simp: bind_virq_to_irq_def)
  with assms(1,2) have irq0: "0 \<le> irq0" "irq = irq0"
    by (auto simp: bind_virq_to_irq_def Let_def split: if_splits prod.splits sum.splits)
  from find_unbound_irq_state [OF f irq0(1)]
  have s0: "s0 = s\<lparr>irq_descs := (irq_descs s) (nat irq0 \<mapsto> fresh_desc)\<rparr>" .
  show "0 \<le> irq" using irq0 by simp
  from assms f irq0 have s1: "hv x (trace s) (EVTCHNOP_bind_virq virq cpu) = (0, port) \<and>
      bind_evtchn_to_cpu port cpu
        (s\<lparr>irq_descs := (irq_descs s) (nat irq \<mapsto> fresh_desc\<lparr>chip := xen_percpu_chip\<rparr>),
           trace := trace s @ [Hypercall (EVTCHNOP_bind_virq virq cpu)],
           evtchn_to_irq := (evtchn_to_irq s) (port := irq),
           irq_info := (irq_info s) (nat irq := mk_virq_info port virq),
           virq_to_irq := (virq_to_irq s) (cpu := (virq_to_irq s cpu) (virq := irq))\<rparr>)
       = Inr s1"
    by (cases "hv x (trace s) (EVTCHNOP_bind_virq virq cpu)")
       (auto simp: bind_virq_to_irq_def Let_def set_irq_chip_and_handler_name_def
          hypercall_def s0 split: if_splits sum.splits)
  then have e: "s1 = (s\<lparr>irq_descs := (irq_descs s) (nat irq \<mapsto> fresh_desc\<lparr>chip := xen_percpu_chip\<rparr>),
           trace := trace s @ [Hypercall (EVTCHNOP_bind_virq virq cpu)],
           evtchn_to_irq := (evtchn_to_irq s) (port := irq),
           irq_info := (irq_info s) (nat irq := mk_virq_info port virq),
           virq_to_irq := (virq_to_irq s) (cpu := (virq_to_irq s cpu) (virq := irq))\<rparr>)
        \<lparr>cpu_evtchn_mask :=
            ((cpu_evtchn_mask s) (0 := clear_bit_bm port (cpu_evtchn_mask s 0)))
             (cpu := set_bit_bm port
                (((cpu_evtchn_mask s) (0 := clear_bit_bm port (cpu_evtchn_mask s 0))) cpu)),
          irq_info := (irq_info s)
           (nat irq := (mk_virq_info port virq)\<lparr>info_cpu := ushort cpu\<rparr>)\<rparr>"
    using irq0
    by (auto simp: bind_evtchn_to_cpu_def Let_def cpu_from_irq_def info_for_irq_def
        mk_virq_info_def zero_info_def split: if_splits)
  show "trace s1 = trace s @ [Hypercall (EVTCHNOP_bind_virq virq cpu)]"
    "evtchn_to_irq s1 = (evtchn_to_irq s) (port := irq)"
    "irq_info s1 = (irq_info s)
           (nat irq := (mk_virq_info port virq)\<lparr>info_cpu := ushort cpu\<rparr>)"
    "virq_to_irq s1 = (virq_to_irq s) (cpu := (virq_to_irq s cpu) (virq := irq))"
    "ipi_to_irq s1 = ipi_to_irq s"
    "irq_descs s1 = (irq_descs s) (nat irq \<mapsto> fresh_desc\<lparr>chip := xen_percpu_chip\<rparr>)"
    "cpu_evtchn_mask s1 =
           ((cpu_evtchn_mask s) (0 := clear_bit_bm port (cpu_evtchn_mask s 0)))
             (cpu := set_bit_bm port
                (((cpu_evtchn_mask s) (0 := clear_bit_bm port (cpu_evtchn_mask s 0))) cpu))"
    "evtchn_mask s1 = evtchn_mask s" "evtchn_pending s1 = evtchn_pending s"
    by (simp_all add: e)
qed

lemma bind_ipi_to_irq_fresh:
  assumes "ipi_to_irq s cpu ipi = - 1" "bind_ipi_to_irq x ipi cpu s = Inr (irq, s1)"
    and "0 \<le> irq"
    and "port = snd (hv x (trace s) (EVTCHNOP_bind_ipi cpu))"
  shows "0 \<le> irq"
    and "trace s1 = trace s @ [Hypercall (EVTCHNOP_bind_ipi cpu)]"
    and "evtchn_to_irq s1 = (evtchn_to_irq s) (port := irq)"
    and "irq_info s1 = (irq_info s)
           (nat irq := (mk_ipi_info port ipi)\<lparr>info_cpu := ushort cpu\<rparr>)"
    and "ipi_to_irq s1 = (ipi_to_irq s) (cpu := (ipi_to_irq s cpu) (ipi := irq))"
    and "virq_to_irq s1 = virq_to_irq s"
    and "irq_descs s1 = (irq_descs s) (nat irq \<mapsto> fresh_desc\<lparr>chip := xen_percpu_chip\<rparr>)"
    and "cpu_evtchn_mask s1 =
           ((cpu_evtchn_mask s) (0 := clear_bit_bm port (cpu_evtchn_mask s 0)))
             (cpu := set_bit_bm port
                (((cpu_evtchn_mask s) (0 := clear_bit_bm port (cpu_evtchn_mask s 0))) cpu))"
    and "evtchn_mask s1 = evtchn_mask s" and "evtchn_pending s1 = evtchn_pending s"
proof -
  obtain irq0 s0 where f: "find_unbound_irq x s = Inr (irq0, s0)"
    using assms(1,2) by (cases "find_unbound_irq x s") (auto simp: bind_ipi_to_irq_def)
  with assms(1,2,3) have irq0: "0 \<le> irq0" "irq = irq0"
    by (auto simp: bind_ipi_to_irq_def Let_def split: if_splits prod.splits sum.splits)
  from find_unbound_irq_state [OF f irq0(1)]
  have s0: "s0 = s\<lparr>irq_descs := (irq_descs s) (nat irq0 \<mapsto> fresh_desc)\<rparr>" .
  show "0 \<le> irq" using irq0 by simp
  from assms f irq0 have s1: "hv x (trace s) (EVTCHNOP_bind_ipi cpu) = (0, port) \<and>
      bind_evtchn_to_cpu port cpu
        (s\<lparr>irq_descs := (irq_descs s) (nat irq \<mapsto> fresh_desc\<lparr>chip := xen_percpu_chip\<rparr>),
           trace := trace s @ [Hypercall (EVTCHNOP_bind_ipi cpu)],
           evtchn_to_irq := (evtchn_to_irq s) (port := irq),
           irq_info := (irq_info s) (nat irq := mk_ipi_info port ipi),
           ipi_to_irq := (ipi_to_irq s) (cpu := (ipi_to_irq s cpu) (ipi := irq))\<rparr>)
       = Inr s1"
    by (cases "hv x (trace s) (EVTCHNOP_bind_ipi cpu)")
       (auto simp: bind_ipi_to_irq_def Let_def set_irq_chip_and_handler_name_def
          hypercall_def s0 split: if_splits sum.splits)
  then have e: "s1 = (s\<lparr>irq_descs := (irq_descs s) (nat irq \<mapsto> fresh_desc\<lparr>chip := xen_percpu_chip\<rparr>),
           trace := trace s @ [Hypercall (EVTCHNOP_bind_ipi cpu)],
           evtchn_to_irq := (evtchn_to_irq s) (port := irq),
           irq_info := (irq_info s) (nat irq := mk_ipi_info port ipi),
           ipi_to_irq := (ipi_to_irq s) (cpu := (ipi_to_irq s cpu) (ipi := irq))\<rparr>)
        \<lparr>cpu_evtchn_mask :=
            ((cpu_evtchn_mask s) (0 := clear_bit_bm port (cpu_evtchn_mask s 0)))
             (cpu := set_bit_bm port
                (((cpu_evtchn_mask s) (0 := clear_bit_bm port (cpu_evtchn_mask s 0))) cpu)),
          irq_info := (irq_info s)
           (nat irq := (mk_ipi_info port ipi)\<lparr>info_cpu := ushort cpu\<rparr>)\<rparr>"
    using irq0
    by (auto simp: bind_evtchn_to_cpu_def Let_def cpu_from_irq_def info_for_irq_def
        mk_ipi_info_def zero_info_def split: if_splits)
  show "trace s1 = trace s @ [Hypercall (EVTCHNOP_bind_ipi cpu)]"
    "evtchn_to_irq s1 = (evtchn_to_irq s) (port := irq)"
    "irq_info s1 = (irq_info s)
           (nat irq := (mk_ipi_info port ipi)\<lparr>info_cpu := ushort cpu\<rparr>)"
    "ipi_to_irq s1 = (ipi_to_irq s) (cpu := (ipi_to_irq s cpu) (ipi := irq))"
    "virq_to_irq s1 = virq_to_irq s"
    "irq_descs s1 = (irq_descs s) (nat irq \<mapsto> fresh_desc\<lparr>chip := xen_percpu_chip\<rparr>)"
    "cpu_evtchn_mask s1 =
           ((cpu_evtchn_mask s) (0 := clear_bit_bm port (cpu_evtchn_mask s 0)))
             (cpu := set_bit_bm port
                (((cpu_evtchn_mask s) (0 := clear_bit_bm port (cpu_evtchn_mask s 0))) cpu))"
    "evtchn_mask s1 = evtchn_mask s" "evtchn_pending s1 = evtchn_pending s"
    by (simp_all add: e)
qed

lemma rollback_virq:
  assumes fresh: "virq_to_irq s cpu virq = - 1"
    and bind: "bind_virq_to_irq x virq cpu s = Inr (irq, s1)"
    and port: "port = snd (hv x (trace s) (EVTCHNOP_bind_virq virq cpu))"
      "0 < port" "port < 65536"
    and small: "cpu < 65536" "virq < 65536"
    and close: "fst (hv x (trace s1) (EVTCHNOP_close port)) = 0"
  shows "\<exists>s3. unbind_from_irq x (nat irq) s1 = Inr s3 \<and> rolled_back s s1 (nat irq) port s3"
proof -
  note f = bind_virq_to_irq_fresh [OF fresh bind port(1)]
  have pre: "info_evtchn (irq_info s1 (nat irq)) = port" "port \<noteq> 0"
    "evtchn_to_irq s1 port = int (nat irq)"
    "info_type (irq_info s1 (nat irq)) \<noteq> IRQT_UNBOUND"
    using port small f(1) by (simp_all add: f mk_virq_info_def zero_info_def ushort_def)
  have info: "info_type (irq_info s1 (nat irq)) = IRQT_VIRQ"
    "info_cpu (irq_info s1 (nat irq)) = cpu" "u_virq (irq_info s1 (nat irq)) = virq"
    using small by (simp_all add: f mk_virq_info_def zero_info_def ushort_def)
  from pre close obtain s3 where ret: "unbind_from_irq x (nat irq) s1 = Inr s3"
    using unbind_from_irq_returns [of s1 "nat irq" port x] f(1) by auto
  note a = unbind_from_irq_port [OF pre(1-3) ret, unfolded info]
    and b = unbind_from_irq_rest [OF pre ret, unfolded info]
  have v: "virq_to_irq s3 = virq_to_irq s"
    using b(5) fresh by (simp add: f(5) fun_upd_idem)
  have m: "test_bit_bm port (cpu_evtchn_mask s3 0)"
    "\<forall>c. c \<noteq> 0 \<longrightarrow> test_bit_bm port (cpu_evtchn_mask s3 c) \<longrightarrow>
       test_bit_bm port (cpu_evtchn_mask s c)"
    using a(3) a(4) by (auto simp: f(8) test_set_same test_clear_bit_bm)
  have "rolled_back s s1 (nat irq) port s3"
    unfolding rolled_back_def
    using a(1,2) b(1-4) b(6) v m
    by (simp add: f fresh_desc_def)
  with ret show ?thesis by blast
qed

lemma rollback_ipi:
  assumes fresh: "ipi_to_irq s cpu ipi = - 1"
    and bind: "bind_ipi_to_irq x ipi cpu s = Inr (irq, s1)" and irq: "0 \<le> irq"
    and port: "port = snd (hv x (trace s) (EVTCHNOP_bind_ipi cpu))"
      "0 < port" "port < 65536"
    and small: "cpu < 65536"
    and close: "fst (hv x (trace s1) (EVTCHNOP_close port)) = 0"
  shows "\<exists>s3. unbind_from_irq x (nat irq) s1 = Inr s3 \<and> rolled_back s s1 (nat irq) port s3"
proof -
  note f = bind_ipi_to_irq_fresh [OF fresh bind irq port(1)]
  have pre: "info_evtchn (irq_info s1 (nat irq)) = port" "port \<noteq> 0"
    "evtchn_to_irq s1 port = int (nat irq)"
    "info_type (irq_info s1 (nat irq)) \<noteq> IRQT_UNBOUND"
    using port small irq by (simp_all add: f mk_ipi_info_def zero_info_def ushort_def)
  have info: "info_type (irq_info s1 (nat irq)) = IRQT_IPI"
    "info_cpu (irq_info s1 (nat irq)) = cpu" "u_ipi (irq_info s1 (nat irq)) = ipi"
    using small by (simp_all add: f mk_ipi_info_def zero_info_def ushort_def)
  from pre close obtain s3 where ret: "unbind_from_irq x (nat irq) s1 = Inr s3"
    using unbind_from_irq_returns [of s1 "nat irq" port x] irq by auto
  note a = unbind_from_irq_port [OF pre(1-3) ret, unfolded info]
    and b = unbind_from_irq_rest [OF pre ret, unfolded info]
  have v: "ipi_to_irq s3 = ipi_to_irq s"
    using b(6) fresh by (simp add: f(5) fun_upd_idem)
  have m: "test_bit_bm port (cpu_evtchn_mask s3 0)"
    "\<forall>c. c \<noteq> 0 \<longrightarrow> test_bit_bm port (cpu_evtchn_mask s3 c) \<longrightarrow>
       test_bit_bm port (cpu_evtchn_mask s c)"
    using a(3) a(4) by (auto simp: f(8) test_set_same test_clear_bit_bm)
  have "rolled_back s s1 (nat irq) port s3"
    unfolding rolled_back_def
    using a(1,2) b(1-5) v m
    by (simp add: f fresh_desc_def)
  with ret show ?thesis by blast
qed

lemma rollback_interdomain:
  assumes hc: "hv x (trace s) (EVTCHNOP_bind_interdomain (ushort remote_domain) remote_port)
                 = (0, port)"
    and fresh: "evtchn_to_irq s port = - 1" and port: "0 < port" "port < 65536"
    and bind: "bind_interdomain_evtchn_to_irq x remote_domain remote_port s = Inr (irq, s1)"
    and close: "fst (hv x (trace s1) (EVTCHNOP_close port)) = 0"
  shows "\<exists>s3. unbind_from_irq x (nat irq) s1 = Inr s3 \<and> rolled_back s s1 (nat irq) port s3"
proof -
  let ?s' = "s\<lparr>trace := trace s @
      [Hypercall (EVTCHNOP_bind_interdomain (ushort remote_domain) remote_port)]\<rparr>"
  from hc bind have b: "bind_evtchn_to_irq x port ?s' = Inr (irq, s1)"
    by (simp add: bind_interdomain_evtchn_to_irq_def hypercall_def)
  from fresh have "evtchn_to_irq ?s' port = - 1" by simp
  from rollback_evtchn [OF this port b close]
  show ?thesis by (simp add: rolled_back_def)
qed

text \<open>
  C7, as the code has it. In each of the four functions, when the bind step returns the
  IRQ \<open>irq\<close> (for the inter-domain and the IPI variant: not a negative value, which
  the function hands back at once) and \<open>request_irq\<close> returns \<open>e\<close>:
  if \<open>e = 0\<close> the function returns \<open>irq\<close>; if \<open>e \<noteq> 0\<close> it calls
  \<open>unbind_from_irq\<close> on \<open>irq\<close> and returns \<open>e\<close> unchanged. When moreover the
  key was not bound before the call (its table entry was \<open>-1\<close>), the hypervisor gave
  a valid port below \<open>2^16\<close> (CPU and VIRQ number fit their 16-bit fields), the failed
  \<open>request_irq\<close> left the state as it was and the hypervisor accepts
  \<open>EVTCHNOP_close\<close>, nothing of the binding remains: the state after the call is
  \<open>rolled_back\<close>. \<open>bind_ipi_to_irqhandler\<close> registers with the three suspend flags
  added. The functions count no users of a binding, so for a key that was bound before
  the last part does not hold.
\<close>

theorem irqhandler_rollback:
  "(bind_evtchn_to_irq x evtchn s = Inr (irq, s1) \<and>
    request_irq x (nat irq) irqflags s1 = (e, s2) \<longrightarrow>
      (e = 0 \<longrightarrow> bind_evtchn_to_irqhandler x evtchn irqflags s = Inr (irq, s2)) \<and>
      (e \<noteq> 0 \<longrightarrow> bind_evtchn_to_irqhandler x evtchn irqflags s =
         (case unbind_from_irq x (nat irq) s2 of
            Inl err \<Rightarrow> Inl err | Inr s3 \<Rightarrow> Inr (e, s3))) \<and>
      (e \<noteq> 0 \<and> s2 = s1 \<and> evtchn_to_irq s evtchn = - 1 \<and> 0 < evtchn \<and> evtchn < 65536 \<and>
       fst (hv x (trace s1) (EVTCHNOP_close evtchn)) = 0 \<longrightarrow>
         (\<exists>s3. bind_evtchn_to_irqhandler x evtchn irqflags s = Inr (e, s3) \<and>
               rolled_back s s1 (nat irq) evtchn s3))) \<and>
   (bind_interdomain_evtchn_to_irq x remote_domain remote_port s = Inr (irq, s1) \<and> 0 \<le> irq \<and>
    request_irq x (nat irq) irqflags s1 = (e, s2) \<longrightarrow>
      (e = 0 \<longrightarrow> bind_interdomain_evtchn_to_irqhandler x remote_domain remote_port irqflags s =
         Inr (irq, s2)) \<and>
      (e \<noteq> 0 \<longrightarrow> bind_interdomain_evtchn_to_irqhandler x remote_domain remote_port irqflags s =
         (case unbind_from_irq x (nat irq) s2 of
            Inl err \<Rightarrow> Inl err | Inr s3 \<Rightarrow> Inr (e, s3))) \<and>
      (e \<noteq> 0 \<and> s2 = s1 \<and>
       hv x (trace s) (EVTCHNOP_bind_interdomain (ushort remote_domain) remote_port) =
         (0, port) \<and>
       evtchn_to_irq s port = - 1 \<and> 0 < port \<and> port < 65536 \<and>
       fst (hv x (trace s1) (EVTCHNOP_close port)) = 0 \<longrightarrow>
         (\<exists>s3. bind_interdomain_evtchn_to_irqhandler x remote_domain remote_port irqflags s =
                 Inr (e, s3) \<and>
               rolled_back s s1 (nat irq) port s3))) \<and>
   (bind_virq_to_irq x virq cpu s = Inr (irq, s1) \<and>
    request_irq x (nat irq) irqflags s1 = (e, s2) \<longrightarrow>
      (e = 0 \<longrightarrow> bind_virq_to_irqhandler x virq cpu irqflags s = Inr (irq, s2)) \<and>
      (e \<noteq> 0 \<longrightarrow> bind_virq_to_irqhandler x virq cpu irqflags s =
         (case unbind_from_irq x (nat irq) s2 of
            Inl err \<Rightarrow> Inl err | Inr s3 \<Rightarrow> Inr (e, s3))) \<and>
      (e \<noteq> 0 \<and> s2 = s1 \<and> virq_to_irq s cpu virq = - 1 \<and> cpu < 65536 \<and> virq < 65536 \<and>
       port = snd (hv x (trace s) (EVTCHNOP_bind_virq virq cpu)) \<and>
       0 < port \<and> port < 65536 \<and>
       fst (hv x (trace s1) (EVTCHNOP_close port)) = 0 \<longrightarrow>
         (\<exists>s3. bind_virq_to_irqhandler x virq cpu irqflags s = Inr (e, s3) \<and>
               rolled_back s s1 (nat irq) port s3))) \<and>
   (bind_ipi_to_irq x ipi cpu s = Inr (irq, s1) \<and> 0 \<le> irq \<and>
    request_irq x (nat irq)
      (irqflags OR IRQF_NO_SUSPEND OR IRQF_FORCE_RESUME OR IRQF_EARLY_RESUME) s1 = (e, s2) \<longrightarrow>
      (e = 0 \<longrightarrow> bind_ipi_to_irqhandler x ipi cpu irqflags s = Inr (irq, s2)) \<and>
      (e \<noteq> 0 \<longrightarrow> bind_ipi_to_irqhandler x ipi cpu irqflags s =
         (case unbind_from_irq x (nat irq) s2 of
            Inl err \<Rightarrow> Inl err | Inr s3 \<Rightarrow> Inr (e, s3))) \<and>
      (e \<noteq> 0 \<and> s2 = s1 \<and> ipi_to_irq s cpu ipi = - 1 \<and> cpu < 65536 \<and>
       port = snd (hv x (trace s) (EVTCHNOP_bind_ipi cpu)) \<and>
       0 < port \<and> port < 65536 \<and>
       fst (hv x (trace s1) (EVTCHNOP_close port)) = 0 \<longrightarrow>
         (\<exists>s3. bind_ipi_to_irqhandler x ipi cpu irqflags s = Inr (e, s3) \<and>
               rolled_back s s1 (nat irq) port s3)))"
proof (intro conjI impI; (elim conjE)?)
  assume "bind_evtchn_to_irq x evtchn s = Inr (irq, s1)"
    "request_irq x (nat irq) irqflags s1 = (e, s2)" "e = 0"
  then show "bind_evtchn_to_irqhandler x evtchn irqflags s = Inr (irq, s2)"
    by (simp add: bind_evtchn_to_irqhandler_def)
next
  assume "bind_evtchn_to_irq x evtchn s = Inr (irq, s1)"
    "request_irq x (nat irq) irqflags s1 = (e, s2)" "e \<noteq> 0"
  then show "bind_evtchn_to_irqhandler x evtchn irqflags s =
      (case unbind_from_irq x (nat irq) s2 of Inl err \<Rightarrow> Inl err | Inr s3 \<Rightarrow> Inr (e, s3))"
    by (simp add: bind_evtchn_to_irqhandler_def)
next
  assume a: "bind_evtchn_to_irq x evtchn s = Inr (irq, s1)"
    "request_irq x (nat irq) irqflags s1 = (e, s2)" "e \<noteq> 0" "s2 = s1"
    and b: "evtchn_to_irq s evtchn = - 1" "0 < evtchn" "evtchn < 65536"
    "fst (hv x (trace s1) (EVTCHNOP_close evtchn)) = 0"
  from rollback_evtchn [OF b(1-3) a(1) b(4)] a
  show "\<exists>s3. bind_evtchn_to_irqhandler x evtchn irqflags s = Inr (e, s3) \<and>
      rolled_back s s1 (nat irq) evtchn s3"
    by (auto simp: bind_evtchn_to_irqhandler_def)
next
  assume "bind_interdomain_evtchn_to_irq x remote_domain remote_port s = Inr (irq, s1)"
    "0 \<le> irq" "request_irq x (nat irq) irqflags s1 = (e, s2)" "e = 0"
  then show "bind_interdomain_evtchn_to_irqhandler x remote_domain remote_port irqflags s =
      Inr (irq, s2)"
    by (simp add: bind_interdomain_evtchn_to_irqhandler_def)
next
  assume "bind_interdomain_evtchn_to_irq x remote_domain remote_port s = Inr (irq, s1)"
    "0 \<le> irq" "request_irq x (nat irq) irqflags s1 = (e, s2)" "e \<noteq> 0"
  then show "bind_interdomain_evtchn_to_irqhandler x remote_domain remote_port irqflags s =
      (case unbind_from_irq x (nat irq) s2 of Inl err \<Rightarrow> Inl err | Inr s3 \<Rightarrow> Inr (e, s3))"
    by (simp add: bind_interdomain_evtchn_to_irqhandler_def)
next
  assume a: "bind_interdomain_evtchn_to_irq x remote_domain remote_port s = Inr (irq, s1)"
    "0 \<le> irq" "request_irq x (nat irq) irqflags s1 = (e, s2)" "e \<noteq> 0" "s2 = s1"
    and b: "hv x (trace s) (EVTCHNOP_bind_interdomain (ushort remote_domain) remote_port) =
      (0, port)"
    "evtchn_to_irq s port = - 1" "0 < port" "port < 65536"
    "fst (hv x (trace s1) (EVTCHNOP_close port)) = 0"
  from rollback_interdomain [OF b(1-4) a(1) b(5)] a
  show "\<exists>s3. bind_interdomain_evtchn_to_irqhandler x remote_domain remote_port irqflags s =
      Inr (e, s3) \<and> rolled_back s s1 (nat irq) port s3"
    by (auto simp: bind_interdomain_evtchn_to_irqhandler_def)
next
  assume "bind_virq_to_irq x virq cpu s = Inr (irq, s1)"
    "request_irq x (nat irq) irqflags s1 = (e, s2)" "e = 0"
  then show "bind_virq_to_irqhandler x virq cpu irqflags s = Inr (irq, s2)"
    by (simp add: bind_virq_to_irqhandler_def)
next
  assume "bind_virq_to_irq x virq cpu s = Inr (irq, s1)"
    "request_irq x (nat irq) irqflags s1 = (e, s2)" "e \<noteq> 0"
  then show "bind_virq_to_irqhandler x virq cpu irqflags s =
      (case unbind_from_irq x (nat irq) s2 of Inl err \<Rightarrow> Inl err | Inr s3 \<Rightarrow> Inr (e, s3))"
    by (simp add: bind_virq_to_irqhandler_def)
next
  assume a: "bind_virq_to_irq x virq cpu s = Inr (irq, s1)"
    "request_irq x (nat irq) irqflags s1 = (e, s2)" "e \<noteq> 0" "s2 = s1"
    and b: "virq_to_irq s cpu virq = - 1" "cpu < 65536" "virq < 65536"
    "port = snd (hv x (trace s) (EVTCHNOP_bind_virq virq cpu))" "0 < port" "port < 65536"
    "fst (hv x (trace s1) (EVTCHNOP_close port)) = 0"
  from rollback_virq [OF b(1) a(1) b(4-6) b(2,3) b(7)] a
  show "\<exists>s3. bind_virq_to_irqhandler x virq cpu irqflags s = Inr (e, s3) \<and>
      rolled_back s s1 (nat irq) port s3"
    by (auto simp: bind_virq_to_irqhandler_def)
next
  assume "bind_ipi_to_irq x ipi cpu s = Inr (irq, s1)" "0 \<le> irq"
    "request_irq x (nat irq)
      (irqflags OR IRQF_NO_SUSPEND OR IRQF_FORCE_RESUME OR IRQF_EARLY_RESUME) s1 = (e, s2)"
    "e = 0"
  then show "bind_ipi_to_irqhandler x ipi cpu irqflags s = Inr (irq, s2)"
    by (simp add: bind_ipi_to_irqhandler_def)
next
  assume "bind_ipi_to_irq x ipi cpu s = Inr (irq, s1)" "0 \<le> irq"
    "request_irq x (nat irq)
      (irqflags OR IRQF_NO_SUSPEND OR IRQF_FORCE_RESUME OR IRQF_EARLY_RESUME) s1 = (e, s2)"
    "e \<noteq> 0"
  then show "bind_ipi_to_irqhandler x ipi cpu irqflags s =
      (case unbind_from_irq x (nat irq) s2 of Inl err \<Rightarrow> Inl err | Inr s3 \<Rightarrow> Inr (e, s3))"
    by (simp add: bind_ipi_to_irqhandler_def)
next
  assume a: "bind_ipi_to_irq x ipi cpu s = Inr (irq, s1)" "0 \<le> irq"
    "request_irq x (nat irq)
      (irqflags OR IRQF_NO_SUSPEND OR IRQF_FORCE_RESUME OR IRQF_EARLY_RESUME) s1 = (e, s2)"
    "e \<noteq> 0" "s2 = s1"
    and b: "ipi_to_irq s cpu ipi = - 1" "cpu < 65536"
    "port = snd (hv x (trace s) (EVTCHNOP_bind_ipi cpu))" "0 < port" "port < 65536"
    "fst (hv x (trace s1) (EVTCHNOP_close port)) = 0"
  from rollback_ipi [OF b(1) a(1,2) b(3-5) b(2) b(6)] a
  show "\<exists>s3. bind_ipi_to_irqhandler x ipi cpu irqflags s = Inr (e, s3) \<and>
      rolled_back s s1 (nat irq) port s3"
    by (auto simp: bind_ipi_to_irqhandler_def)
qed

lemma example_find:
  assumes "desc_alloc_ok x = (\<lambda>irq. True)"
  shows "find_unbound_irq x example_state =
     Inr (255, example_state\<lparr>irq_descs := (irq_descs example_state) (255 \<mapsto> fresh_desc)\<rparr>)"
  by (simp add: find_unbound_irq_def get_nr_hw_irqs_def Let_def irq_to_desc_def
      irq_to_desc_alloc_node_def dynamic_irq_init_keep_chip_data_def dynamic_irq_init_def
      find_unbound_irq_loop.simps example_state_def assms)

lemma example_facts:
  "evtchn_to_irq example_state 50 = - 1" "evtchn_to_irq example_state 51 = - 1"
  "virq_to_irq example_state 0 3 = - 1" "ipi_to_irq example_state 0 3 = - 1"
  "trace example_state = []"
  "hv example_ext t (EVTCHNOP_bind_interdomain 0 3) = (0, 51)"
  "hv example_ext t (EVTCHNOP_bind_virq 3 0) = (0, 32)"
  "hv example_ext t (EVTCHNOP_bind_ipi 0) = (0, 33)"
  "hv example_ext t (EVTCHNOP_close p) = (0, 0)"
  "request_irq example_ext irq f s = (- 16, s)"
  "desc_alloc_ok example_ext = (\<lambda>irq. True)"
  "hv registering_ext = hv example_ext"
  "request_irq registering_ext irq f s = (0, s)"
  "desc_alloc_ok registering_ext = (\<lambda>irq. True)"
  by (simp_all add: example_state_def example_ext_def registering_ext_def)

lemma example_bind_evtchn:
  assumes "desc_alloc_ok x = (\<lambda>irq. True)"
  shows "\<exists>s1. bind_evtchn_to_irq x 50 example_state = Inr (255, s1)"
  by (simp add: bind_evtchn_to_irq_def example_find [OF assms] example_facts Let_def)

lemma example_bind_interdomain:
  assumes "desc_alloc_ok x = (\<lambda>irq. True)" "hv x = hv example_ext"
  shows "\<exists>s1. bind_interdomain_evtchn_to_irq x 0 3 example_state = Inr (255, s1)"
  by (simp add: bind_interdomain_evtchn_to_irq_def bind_evtchn_to_irq_def hypercall_def
      find_unbound_irq_def get_nr_hw_irqs_def Let_def irq_to_desc_def
      irq_to_desc_alloc_node_def dynamic_irq_init_keep_chip_data_def dynamic_irq_init_def
      find_unbound_irq_loop.simps example_state_def example_ext_def ushort_def assms)

lemma example_bind_virq:
  assumes "desc_alloc_ok x = (\<lambda>irq. True)" "hv x = hv example_ext"
  shows "\<exists>s1. bind_virq_to_irq x 3 0 example_state = Inr (255, s1)"
  by (simp add: bind_virq_to_irq_def example_find [OF assms(1)] example_facts Let_def
      hypercall_def set_irq_chip_and_handler_name_def bind_evtchn_to_cpu_def assms(2))

lemma example_bind_ipi:
  assumes "desc_alloc_ok x = (\<lambda>irq. True)" "hv x = hv example_ext"
  shows "\<exists>s1. bind_ipi_to_irq x 3 0 example_state = Inr (255, s1)"
  by (simp add: bind_ipi_to_irq_def example_find [OF assms(1)] example_facts Let_def
      hypercall_def set_irq_chip_and_handler_name_def bind_evtchn_to_cpu_def assms(2))

theorem irqhandler_rollback_witness:
  "(\<exists>s1 s3. bind_evtchn_to_irq example_ext 50 example_state = Inr (255, s1) \<and>
      bind_evtchn_to_irqhandler example_ext 50 0 example_state = Inr (- 16, s3) \<and>
      rolled_back example_state s1 255 50 s3) \<and>
   (\<exists>s1 s3. bind_interdomain_evtchn_to_irq example_ext 0 3 example_state = Inr (255, s1) \<and>
      bind_interdomain_evtchn_to_irqhandler example_ext 0 3 0 example_state = Inr (- 16, s3) \<and>
      rolled_back example_state s1 255 51 s3) \<and>
   (\<exists>s1 s3. bind_virq_to_irq example_ext 3 0 example_state = Inr (255, s1) \<and>
      bind_virq_to_irqhandler example_ext 3 0 0 example_state = Inr (- 16, s3) \<and>
      rolled_back example_state s1 255 32 s3) \<and>
   (\<exists>s1 s3. bind_ipi_to_irq example_ext 3 0 example_state = Inr (255, s1) \<and>
      bind_ipi_to_irqhandler example_ext 3 0 0 example_state = Inr (- 16, s3) \<and>
      rolled_back example_state s1 255 33 s3) \<and>
   (\<exists>s1. bind_evtchn_to_irq registering_ext 50 example_state = Inr (255, s1) \<and>
      bind_evtchn_to_irqhandler registering_ext 50 0 example_state = Inr (255, s1)) \<and>
   (\<exists>s1. bind_interdomain_evtchn_to_irq registering_ext 0 3 example_state = Inr (255, s1) \<and>
      bind_interdomain_evtchn_to_irqhandler registering_ext 0 3 0 example_state =
        Inr (255, s1)) \<and>
   (\<exists>s1. bind_virq_to_irq registering_ext 3 0 example_state = Inr (255, s1) \<and>
      bind_virq_to_irqhandler registering_ext 3 0 0 example_state = Inr (255, s1)) \<and>
   (\<exists>s1. bind_ipi_to_irq registering_ext 3 0 example_state = Inr (255, s1) \<and>
      bind_ipi_to_irqhandler registering_ext 3 0 0 example_state = Inr (255, s1))"
proof -
  note ok = example_facts(11) and rok = example_facts(14) example_facts(12)
  obtain e1 where e1: "bind_evtchn_to_irq example_ext 50 example_state = Inr (255, e1)"
    using example_bind_evtchn [OF ok] by blast
  obtain d1 where d1:
    "bind_interdomain_evtchn_to_irq example_ext 0 3 example_state = Inr (255, d1)"
    using example_bind_interdomain [OF ok refl] by blast
  obtain v1 where v1: "bind_virq_to_irq example_ext 3 0 example_state = Inr (255, v1)"
    using example_bind_virq [OF ok refl] by blast
  obtain i1 where i1: "bind_ipi_to_irq example_ext 3 0 example_state = Inr (255, i1)"
    using example_bind_ipi [OF ok refl] by blast
  obtain e2 where e2: "bind_evtchn_to_irq registering_ext 50 example_state = Inr (255, e2)"
    using example_bind_evtchn [OF rok(1)] by blast
  obtain d2 where d2:
    "bind_interdomain_evtchn_to_irq registering_ext 0 3 example_state = Inr (255, d2)"
    using example_bind_interdomain [OF rok] by blast
  obtain v2 where v2: "bind_virq_to_irq registering_ext 3 0 example_state = Inr (255, v2)"
    using example_bind_virq [OF rok] by blast
  obtain i2 where i2: "bind_ipi_to_irq registering_ext 3 0 example_state = Inr (255, i2)"
    using example_bind_ipi [OF rok] by blast
  have pa: "bind_evtchn_to_irq example_ext 50 example_state = Inr (255, e1) \<and>
      request_irq example_ext (nat 255) 0 e1 = (- 16, e1)"
    using e1 by (simp add: example_facts)
  have qa: "(- 16 :: int) \<noteq> 0 \<and> e1 = e1 \<and> evtchn_to_irq example_state 50 = - 1 \<and>
      0 < (50 :: nat) \<and> (50 :: nat) < 65536 \<and>
      fst (hv example_ext (trace e1) (EVTCHNOP_close 50)) = 0"
    by (simp add: example_facts)
  from irqhandler_rollback [of example_ext 50 example_state 255 e1 0 "- 16" e1,
      THEN conjunct1, THEN mp, OF pa, THEN conjunct2, THEN conjunct2, THEN mp, OF qa]
  have a: "\<exists>s3. bind_evtchn_to_irqhandler example_ext 50 0 example_state = Inr (- 16, s3) \<and>
      rolled_back example_state e1 255 50 s3"
    by simp
  have pb: "bind_interdomain_evtchn_to_irq example_ext 0 3 example_state = Inr (255, d1) \<and>
      (0 :: int) \<le> 255 \<and> request_irq example_ext (nat 255) 0 d1 = (- 16, d1)"
    using d1 by (simp add: example_facts)
  have qb: "(- 16 :: int) \<noteq> 0 \<and> d1 = d1 \<and>
      hv example_ext (trace example_state) (EVTCHNOP_bind_interdomain (ushort 0) 3) =
        (0, 51) \<and>
      evtchn_to_irq example_state 51 = - 1 \<and> 0 < (51 :: nat) \<and> (51 :: nat) < 65536 \<and>
      fst (hv example_ext (trace d1) (EVTCHNOP_close 51)) = 0"
    by (simp add: example_facts ushort_def)
  from irqhandler_rollback [of example_ext _ example_state 255 d1 0 "- 16" d1 0 3 51,
      THEN conjunct2, THEN conjunct1, THEN mp, OF pb, THEN conjunct2, THEN conjunct2,
      THEN mp, OF qb]
  have b: "\<exists>s3. bind_interdomain_evtchn_to_irqhandler example_ext 0 3 0 example_state =
      Inr (- 16, s3) \<and> rolled_back example_state d1 255 51 s3"
    by simp
  have pc: "bind_virq_to_irq example_ext 3 0 example_state = Inr (255, v1) \<and>
      request_irq example_ext (nat 255) 0 v1 = (- 16, v1)"
    using v1 by (simp add: example_facts)
  have qc: "(- 16 :: int) \<noteq> 0 \<and> v1 = v1 \<and> virq_to_irq example_state 0 3 = - 1 \<and>
      (0 :: nat) < 65536 \<and> (3 :: nat) < 65536 \<and>
      32 = snd (hv example_ext (trace example_state) (EVTCHNOP_bind_virq 3 0)) \<and>
      0 < (32 :: nat) \<and> (32 :: nat) < 65536 \<and>
      fst (hv example_ext (trace v1) (EVTCHNOP_close 32)) = 0"
    by (simp add: example_facts)
  from irqhandler_rollback [of example_ext _ example_state 255 v1 0 "- 16" v1 _ _ 32 3 0,
      THEN conjunct2, THEN conjunct2, THEN conjunct1, THEN mp, OF pc, THEN conjunct2,
      THEN conjunct2, THEN mp, OF qc]
  have c: "\<exists>s3. bind_virq_to_irqhandler example_ext 3 0 0 example_state = Inr (- 16, s3) \<and>
      rolled_back example_state v1 255 32 s3"
    by simp
  have pd: "bind_ipi_to_irq example_ext 3 0 example_state = Inr (255, i1) \<and>
      (0 :: int) \<le> 255 \<and>
      request_irq example_ext (nat 255)
        (0 OR IRQF_NO_SUSPEND OR IRQF_FORCE_RESUME OR IRQF_EARLY_RESUME) i1 = (- 16, i1)"
    using i1 by (simp add: example_facts)
  have qd: "(- 16 :: int) \<noteq> 0 \<and> i1 = i1 \<and> ipi_to_irq example_state 0 3 = - 1 \<and>
      (0 :: nat) < 65536 \<and>
      33 = snd (hv example_ext (trace example_state) (EVTCHNOP_bind_ipi 0)) \<and>
      0 < (33 :: nat) \<and> (33 :: nat) < 65536 \<and>
      fst (hv example_ext (trace i1) (EVTCHNOP_close 33)) = 0"
    by (simp add: example_facts)
  from irqhandler_rollback [of example_ext _ example_state 255 i1 0 "- 16" i1 _ _ 33 _ 0 3,
      THEN conjunct2, THEN conjunct2, THEN conjunct2, THEN mp, OF pd, THEN conjunct2,
      THEN conjunct2, THEN mp, OF qd]
  have d: "\<exists>s3. bind_ipi_to_irqhandler example_ext 3 0 0 example_state = Inr (- 16, s3) \<and>
      rolled_back example_state i1 255 33 s3"
    by simp
  have pe: "bind_evtchn_to_irq registering_ext 50 example_state = Inr (255, e2) \<and>
      request_irq registering_ext (nat 255) 0 e2 = (0, e2)"
    using e2 by (simp add: example_facts)
  from irqhandler_rollback [of registering_ext 50 example_state 255 e2 0 0 e2,
      THEN conjunct1, THEN mp, OF pe, THEN conjunct1, THEN mp, OF refl]
  have e: "bind_evtchn_to_irqhandler registering_ext 50 0 example_state = Inr (255, e2)" .
  have pf: "bind_interdomain_evtchn_to_irq registering_ext 0 3 example_state =
        Inr (255, d2) \<and>
      (0 :: int) \<le> 255 \<and> request_irq registering_ext (nat 255) 0 d2 = (0, d2)"
    using d2 by (simp add: example_facts)
  from irqhandler_rollback [of registering_ext _ example_state 255 d2 0 0 d2 0 3,
      THEN conjunct2, THEN conjunct1, THEN mp, OF pf, THEN conjunct1, THEN mp, OF refl]
  have f: "bind_interdomain_evtchn_to_irqhandler registering_ext 0 3 0 example_state =
      Inr (255, d2)" .
  have pg: "bind_virq_to_irq registering_ext 3 0 example_state = Inr (255, v2) \<and>
      request_irq registering_ext (nat 255) 0 v2 = (0, v2)"
    using v2 by (simp add: example_facts)
  from irqhandler_rollback [of registering_ext _ example_state 255 v2 0 0 v2 _ _ _ 3 0,
      THEN conjunct2, THEN conjunct2, THEN conjunct1, THEN mp, OF pg, THEN conjunct1,
      THEN mp, OF refl]
  have g: "bind_virq_to_irqhandler registering_ext 3 0 0 example_state = Inr (255, v2)" .
  have ph: "bind_ipi_to_irq registering_ext 3 0 example_state = Inr (255, i2) \<and>
      (0 :: int) \<le> 255 \<and>
      request_irq registering_ext (nat 255)
        (0 OR IRQF_NO_SUSPEND OR IRQF_FORCE_RESUME OR IRQF_EARLY_RESUME) i2 = (0, i2)"
    using i2 by (simp add: example_facts)
  from irqhandler_rollback [of registering_ext _ example_state 255 i2 0 0 i2 _ _ _ _ 0 3,
      THEN conjunct2, THEN conjunct2, THEN conjunct2, THEN mp, OF ph, THEN conjunct1,
      THEN mp, OF refl]
  have h: "bind_ipi_to_irqhandler registering_ext 3 0 0 example_state = Inr (255, i2)" .
  from a b c d e1 d1 v1 i1 have fail: "(\<exists>s1 s3. bind_evtchn_to_irq example_ext 50 example_state = Inr (255, s1) \<and>
      bind_evtchn_to_irqhandler example_ext 50 0 example_state = Inr (- 16, s3) \<and>
      rolled_back example_state s1 255 50 s3) \<and>
   (\<exists>s1 s3. bind_interdomain_evtchn_to_irq example_ext 0 3 example_state = Inr (255, s1) \<and>
      bind_interdomain_evtchn_to_irqhandler example_ext 0 3 0 example_state = Inr (- 16, s3) \<and>
      rolled_back example_state s1 255 51 s3) \<and>
   (\<exists>s1 s3. bind_virq_to_irq example_ext 3 0 example_state = Inr (255, s1) \<and>
      bind_virq_to_irqhandler example_ext 3 0 0 example_state = Inr (- 16, s3) \<and>
      rolled_back example_state s1 255 32 s3) \<and>
   (\<exists>s1 s3. bind_ipi_to_irq example_ext 3 0 example_state = Inr (255, s1) \<and>
      bind_ipi_to_irqhandler example_ext 3 0 0 example_state = Inr (- 16, s3) \<and>
      rolled_back example_state s1 255 33 s3)"
    by blast
  from e f g h e2 d2 v2 i2 have "(\<exists>s1. bind_evtchn_to_irq registering_ext 50 example_state = Inr (255, s1) \<and>
      bind_evtchn_to_irqhandler registering_ext 50 0 example_state = Inr (255, s1)) \<and>
   (\<exists>s1. bind_interdomain_evtchn_to_irq registering_ext 0 3 example_state = Inr (255, s1) \<and>
      bind_interdomain_evtchn_to_irqhandler registering_ext 0 3 0 example_state =
        Inr (255, s1)) \<and>
   (\<exists>s1. bind_virq_to_irq registering_ext 3 0 example_state = Inr (255, s1) \<and>
      bind_virq_to_irqhandler registering_ext 3 0 0 example_state = Inr (255, s1)) \<and>
   (\<exists>s1. bind_ipi_to_irq registering_ext 3 0 example_state = Inr (255, s1) \<and>
      bind_ipi_to_irqhandler registering_ext 3 0 0 example_state = Inr (255, s1))"
    by blast
  with fail show ?thesis by simp
qed

text \<open>
  C7 as stated fails for a key that is bound already: port 7 is bound to IRQ 102 and a
  handler is registered for it. The bind step of \<open>bind_evtchn_to_irqhandler\<close> returns
  IRQ 102, \<open>request_irq\<close> fails with \<open>-EBUSY\<close> and the function returns that
  value, but the rollback has closed port 7 and unbound IRQ 102, whose descriptor still
  has the chip and the action of the first registration: the earlier binding is gone and
  a half-registered IRQ remains.
\<close>

theorem irqhandler_rollback_prebound_counterexample:
  "evtchn_to_irq prebound_state 7 = 102 \<and>
   irq_descs prebound_state 102 =
     Some (fresh_desc\<lparr>chip := xen_dynamic_chip, has_action := True\<rparr>) \<and>
   bind_evtchn_to_irq example_ext 7 prebound_state = Inr (102, prebound_state) \<and>
   request_irq example_ext 102 0 prebound_state = (- 16, prebound_state) \<and>
   \<not> isl (bind_evtchn_to_irqhandler example_ext 7 0 prebound_state) \<and>
   fst (projr (bind_evtchn_to_irqhandler example_ext 7 0 prebound_state)) = - 16 \<and>
   irq_info (snd (projr (bind_evtchn_to_irqhandler example_ext 7 0 prebound_state))) 102 =
     mk_unbound_info \<and>
   evtchn_to_irq (snd (projr (bind_evtchn_to_irqhandler example_ext 7 0 prebound_state))) 7 =
     - 1 \<and>
   trace (snd (projr (bind_evtchn_to_irqhandler example_ext 7 0 prebound_state))) =
     [Hypercall (EVTCHNOP_close 7)] \<and>
   irq_descs (snd (projr (bind_evtchn_to_irqhandler example_ext 7 0 prebound_state))) 102 =
     Some (fresh_desc\<lparr>chip := xen_dynamic_chip, has_action := True\<rparr>)"
  by (simp add: prebound_state_def example_state_def example_ext_def
      bind_evtchn_to_irqhandler_def bind_evtchn_to_irq_def unbind_defs
      dynamic_irq_cleanup_def mk_evtchn_info_def mk_unbound_info_def zero_info_def ushort_def)

subsection \<open>The scan of the upcall\<close>

lemma upcall_bits_loop_done:
  "MASK_LSBS pb bi = 0 \<Longrightarrow> upcall_bits_loop x cpu w pb bi s = s"
  by (subst upcall_bits_loop.simps) simp

lemma upcall_bits_loop_step:
  "MASK_LSBS pb bi \<noteq> 0 \<Longrightarrow>
   upcall_bits_loop x cpu w pb bi s =
     (if (ffs (MASK_LSBS pb bi) + 1) mod BITS_PER_LONG \<noteq> 0
      then upcall_bits_loop x cpu w pb ((ffs (MASK_LSBS pb bi) + 1) mod BITS_PER_LONG)
             (upcall_port x cpu w (ffs (MASK_LSBS pb bi)) s)
      else upcall_port x cpu w (ffs (MASK_LSBS pb bi)) s)"
  by (subst upcall_bits_loop.simps) (simp add: Let_def upcall_port_def)

lemma upcall_words_loop_done:
  "upcall_words_loop x cpu sw sb i word_idx 0 s = s"
  by (subst upcall_words_loop.simps) simp

lemma upcall_words_loop_wrap:
  "pw \<noteq> 0 \<Longrightarrow> MASK_LSBS pw word_idx = 0 \<Longrightarrow>
   upcall_words_loop x cpu sw sb i word_idx pw s =
     upcall_words_loop x cpu sw sb (i + 1) 0 pw s"
  by (subst upcall_words_loop.simps) simp

lemma upcall_words_loop_visit:
  "pw \<noteq> 0 \<Longrightarrow> MASK_LSBS pw word_idx \<noteq> 0 \<Longrightarrow>
   upcall_words_loop x cpu sw sb i word_idx pw s =
     upcall_words_loop x cpu sw sb (i + 1)
       ((ffs (MASK_LSBS pw word_idx) + 1) mod BITS_PER_LONG)
       (if ffs (MASK_LSBS pw word_idx) \<noteq> sw \<or> i \<noteq> 0
        then pw AND NOT (push_bit (ffs (MASK_LSBS pw word_idx)) 1) else pw)
       (upcall_bits_loop x cpu (ffs (MASK_LSBS pw word_idx))
          (active_evtchns cpu s (ffs (MASK_LSBS pw word_idx)))
          (if ffs (MASK_LSBS pw word_idx) = sw \<and> i = 0 then sb else 0) s)"
  by (subst upcall_words_loop.simps) (simp add: Let_def)

lemma upcall_port_quiet:
  assumes "handle_irq x = (\<lambda>irq s. s)"
  shows "upcall_port x cpu w b s =
     s\<lparr>evtchn_mask := set_bit_bm (w * BITS_PER_LONG + b) (evtchn_mask s),
       evtchn_pending := clear_bit_bm (w * BITS_PER_LONG + b) (evtchn_pending s),
       trace := trace s @
         (if evtchn_to_irq s (w * BITS_PER_LONG + b) \<noteq> - 1 \<and>
             irq_descs s (nat (evtchn_to_irq s (w * BITS_PER_LONG + b))) \<noteq> None
          then [Handle_irq (nat (evtchn_to_irq s (w * BITS_PER_LONG + b)))] else []),
       current_word_idx := (current_word_idx s)
         (cpu := (if (b + 1) mod BITS_PER_LONG \<noteq> 0 then w
                  else (w + 1) mod BITS_PER_LONG)),
       current_bit_idx := (current_bit_idx s) (cpu := (b + 1) mod BITS_PER_LONG)\<rparr>"
  using assms
  by (auto simp: upcall_port_def Let_def clear_evtchn_def mask_evtchn_def irq_to_desc_def
      generic_handle_irq_desc_def)


text \<open>The words that the scenarios meet.\<close>

lemma mask_facts:
  "MASK_LSBS 10 0 = 10" "MASK_LSBS 10 2 = 8" "MASK_LSBS 10 4 = 0" "MASK_LSBS 33 0 = 33"
  "MASK_LSBS 33 (Suc 0) = 32" "MASK_LSBS 1 6 = 0" "MASK_LSBS 1 0 = 1"
  "MASK_LSBS 1 (Suc 0) = 0" "MASK_LSBS 0 0 = 0"
  by (simp_all add: MASK_LSBS_def mask_eq_exp_minus_1)

lemma ffs_facts: "ffs 10 = 1" "ffs 8 = 3" "ffs 33 = 0" "ffs 32 = 5" "ffs 1 = 0"
  by (simp_all add: ffs_def BITS_PER_LONG_def upt_rec)

text \<open>
  C3: in a state with pending word 0 = \<open>0b1010\<close>, pending word 5 = \<open>0b1\<close>, no mask
  bit set, the port mask of CPU 0 all-ones, selector \<open>(1<<0)|(1<<5)\<close>, cursor
  \<open>(0, 0)\<close>, no upcall in progress and interrupts disabled, where the ports 1, 3 and 320
  have IRQs with descriptors and the handlers leave the state alone, one upcall on CPU 0
  returns, has handed over exactly the IRQs of the ports 1, 3, 320 in that order, has
  masked and cleared exactly these three ports, and leaves the cursor at \<open>(5, 1)\<close>.
\<close>

theorem upcall_two_level_scan:
  assumes pend: "evtchn_pending s 0 = 10" "evtchn_pending s 5 = 1"
    and mask: "\<forall>w. evtchn_mask s w = 0"
    and cpum: "\<forall>w. cpu_evtchn_mask s 0 w = - 1"
    and sel: "evtchn_pending_sel (xen_vcpu s 0) = 33"
    and cur: "current_word_idx s 0 = 0" "current_bit_idx s 0 = 0"
    and nest: "xed_nesting_count s 0 = 0" and irqs: "irqs_disabled s"
    and irq: "evtchn_to_irq s 1 = int i1" "evtchn_to_irq s 3 = int i3"
      "evtchn_to_irq s 320 = int i320"
    and desc: "irq_descs s i1 \<noteq> None" "irq_descs s i3 \<noteq> None" "irq_descs s i320 \<noteq> None"
    and quiet: "handle_irq x = (\<lambda>irq s. s)"
  shows "\<exists>s'. uu_xen_evtchn_do_upcall x 0 s = Some (Inr s') \<and>
            trace s' = trace s @ [Handle_irq i1, Handle_irq i3, Handle_irq i320] \<and>
            evtchn_mask s' = set_bit_bm 320 (set_bit_bm 3 (set_bit_bm 1 (evtchn_mask s))) \<and>
            evtchn_pending s' =
              clear_bit_bm 320 (clear_bit_bm 3 (clear_bit_bm 1 (evtchn_pending s))) \<and>
            current_word_idx s' 0 = 5 \<and> current_bit_idx s' 0 = 1"
proof -
  define sA where "sA = s\<lparr>xed_nesting_count := (xed_nesting_count s) (0 := 1),
      xen_vcpu := (xen_vcpu s)
        (0 := (xen_vcpu s 0)\<lparr>evtchn_upcall_pending := 0, evtchn_pending_sel := 0\<rparr>)\<rparr>"
  define s1 where "s1 = upcall_port x 0 0 1 sA"
  define s2 where "s2 = upcall_port x 0 0 3 s1"
  define s3 where "s3 = upcall_port x 0 5 0 s2"
  note q = upcall_port_quiet [OF quiet]
  have s1: "s1 = sA\<lparr>evtchn_mask := set_bit_bm 1 (evtchn_mask sA),
       evtchn_pending := clear_bit_bm 1 (evtchn_pending sA),
       trace := trace s @ [Handle_irq i1],
       current_word_idx := (current_word_idx sA) (0 := 0),
       current_bit_idx := (current_bit_idx sA) (0 := 2)\<rparr>"
    unfolding s1_def q using irq desc
    by (simp add: sA_def BITS_PER_LONG_def numeral_2_eq_2 [symmetric])
  have s2: "s2 = s1\<lparr>evtchn_mask := set_bit_bm 3 (evtchn_mask s1),
       evtchn_pending := clear_bit_bm 3 (evtchn_pending s1),
       trace := trace s @ [Handle_irq i1, Handle_irq i3],
       current_word_idx := (current_word_idx s1) (0 := 0),
       current_bit_idx := (current_bit_idx s1) (0 := 4)\<rparr>"
    unfolding s2_def q using irq desc by (simp add: s1 sA_def BITS_PER_LONG_def)
  have s3: "s3 = s2\<lparr>evtchn_mask := set_bit_bm 320 (evtchn_mask s2),
       evtchn_pending := clear_bit_bm 320 (evtchn_pending s2),
       trace := trace s @ [Handle_irq i1, Handle_irq i3, Handle_irq i320],
       current_word_idx := (current_word_idx s2) (0 := 5),
       current_bit_idx := (current_bit_idx s2) (0 := 1)\<rparr>"
    unfolding s3_def q using irq desc by (simp add: s2 s1 sA_def BITS_PER_LONG_def)
  have actA: "active_evtchns 0 sA 0 = 10"
    using pend mask cpum by (simp add: active_evtchns_def sA_def)
  have act2: "active_evtchns 0 s2 5 = 1"
    using pend mask cpum
    by (simp add: active_evtchns_def s2 s1 sA_def set_bit_bm_def clear_bit_bm_def
        BITS_PER_LONG_def)
  have act3: "active_evtchns 0 s3 0 = 0"
    using pend mask cpum
    by (simp add: active_evtchns_def s3 s2 s1 sA_def set_bit_bm_def clear_bit_bm_def
        BITS_PER_LONG_def)
  have bits0: "upcall_bits_loop x 0 0 10 0 sA = s2"
    by (simp add: upcall_bits_loop_step upcall_bits_loop_done mask_facts ffs_facts
        BITS_PER_LONG_def s1_def s2_def del: One_nat_def)
  have bits5: "upcall_bits_loop x 0 5 1 0 s2 = s3"
    by (simp add: upcall_bits_loop_step upcall_bits_loop_done mask_facts ffs_facts
        BITS_PER_LONG_def s3_def)
  have bits0': "upcall_bits_loop x 0 0 0 0 s3 = s3"
    by (simp add: upcall_bits_loop_done mask_facts)
  have w1: "upcall_words_loop x 0 0 0 0 0 33 sA = upcall_words_loop x 0 0 0 1 1 33 s2"
    by (subst upcall_words_loop_visit)
       (simp_all add: mask_facts ffs_facts actA bits0 BITS_PER_LONG_def)
  have w2: "upcall_words_loop x 0 0 0 1 1 33 s2 = upcall_words_loop x 0 0 0 2 6 1 s3"
    by (subst upcall_words_loop_visit)
       (simp_all add: mask_facts ffs_facts act2 bits5 BITS_PER_LONG_def
          numeral_2_eq_2 [symmetric])
  have w3: "upcall_words_loop x 0 0 0 2 6 1 s3 = upcall_words_loop x 0 0 0 3 0 1 s3"
    by (subst upcall_words_loop_wrap) (simp_all add: mask_facts)
  have w4: "upcall_words_loop x 0 0 0 3 0 1 s3 = upcall_words_loop x 0 0 0 4 1 0 s3"
    by (subst upcall_words_loop_visit)
       (simp_all add: mask_facts ffs_facts act3 bits0' BITS_PER_LONG_def)
  have words: "upcall_words_loop x 0 0 0 0 0 33 sA = s3"
    by (simp only: w1 w2 w3 w4 upcall_words_loop_done)
  have fin: "irqs_disabled s3" "xed_nesting_count s3 0 = 1"
    "evtchn_upcall_pending (xen_vcpu s3 0) = 0"
    using irqs by (simp_all add: s3 s2 s1 sA_def)
  have "uu_xen_evtchn_do_upcall x 0 s =
          Some (Inr (s3\<lparr>xed_nesting_count := (xed_nesting_count s3) (0 := 0)\<rparr>))"
    apply (subst uu_xen_evtchn_do_upcall.simps)
    using sel cur nest words [unfolded sA_def, simplified] fin
    apply (simp add: Let_def)
    done
  then show ?thesis
    by (simp add: s3 s2 s1 sA_def)
qed


theorem upcall_two_level_scan_witness:
  "evtchn_pending scan_state 0 = 10 \<and> evtchn_pending scan_state 5 = 1 \<and>
   (\<forall>w. evtchn_mask scan_state w = 0) \<and> (\<forall>w. cpu_evtchn_mask scan_state 0 w = - 1) \<and>
   evtchn_pending_sel (xen_vcpu scan_state 0) = 33 \<and>
   current_word_idx scan_state 0 = 0 \<and> current_bit_idx scan_state 0 = 0 \<and>
   xed_nesting_count scan_state 0 = 0 \<and> irqs_disabled scan_state \<and>
   nr_event_channels scan_state = 1024 \<and>
   (\<exists>s'. uu_xen_evtchn_do_upcall example_ext 0 scan_state = Some (Inr s') \<and>
      trace s' = [Handle_irq 101, Handle_irq 102, Handle_irq 100] \<and>
      current_word_idx s' 0 = 5 \<and> current_bit_idx s' 0 = 1)"
proof -
  have pre: "evtchn_pending scan_state 0 = 10" "evtchn_pending scan_state 5 = 1"
    "\<forall>w. evtchn_mask scan_state w = 0" "\<forall>w. cpu_evtchn_mask scan_state 0 w = - 1"
    "evtchn_pending_sel (xen_vcpu scan_state 0) = 33"
    "current_word_idx scan_state 0 = 0" "current_bit_idx scan_state 0 = 0"
    "xed_nesting_count scan_state 0 = 0" "irqs_disabled scan_state"
    "nr_event_channels scan_state = 1024" "trace scan_state = []"
    by (simp_all add: scan_state_def example_state_def)
  have irq: "evtchn_to_irq scan_state 1 = int 101" "evtchn_to_irq scan_state 3 = int 102"
    "evtchn_to_irq scan_state 320 = int 100"
    "irq_descs scan_state 101 \<noteq> None" "irq_descs scan_state 102 \<noteq> None"
    "irq_descs scan_state 100 \<noteq> None" "handle_irq example_ext = (\<lambda>irq s. s)"
    by (simp_all add: scan_state_def example_state_def example_ext_def)
  from upcall_two_level_scan [OF pre(1-9) irq] pre show ?thesis
    by auto
qed


subsection \<open>The second visit of the starting word\<close>

lemma mask_facts8:
  "MASK_LSBS 8 3 = 8" "MASK_LSBS 8 4 = 0" "MASK_LSBS 8 0 = 8"
  by (simp_all add: MASK_LSBS_def mask_eq_exp_minus_1)

lemma upcall_rescan:
  assumes pend: "evtchn_pending s 0 = 8"
    and mask: "evtchn_mask s 0 = 0"
    and cpum: "cpu_evtchn_mask s 0 0 = - 1"
    and sel: "evtchn_pending_sel (xen_vcpu s 0) = 1"
    and cur: "current_word_idx s 0 = 0" "current_bit_idx s 0 = 3"
    and nest: "xed_nesting_count s 0 = 0" and irqs: "irqs_disabled s"
    and irq: "evtchn_to_irq s 3 = int i2" "irq_descs s i2 \<noteq> None"
    and h: "handle_irq x = (\<lambda>irq s. s\<lparr>evtchn_mask := clear_bit_bm 3 (evtchn_mask s),
                                 evtchn_pending := set_bit_bm 3 (evtchn_pending s)\<rparr>)"
  shows "\<exists>s'. uu_xen_evtchn_do_upcall x 0 s = Some (Inr s') \<and>
            trace s' = trace s @ [Handle_irq i2, Handle_irq i2]"
proof -
  define sA where "sA = s\<lparr>xed_nesting_count := (xed_nesting_count s) (0 := 1),
      xen_vcpu := (xen_vcpu s)
        (0 := (xen_vcpu s 0)\<lparr>evtchn_upcall_pending := 0, evtchn_pending_sel := 0\<rparr>)\<rparr>"
  define s1 where "s1 = upcall_port x 0 0 3 sA"
  define s2 where "s2 = upcall_port x 0 0 3 s1"
  have port: "\<And>t. evtchn_to_irq t 3 = int i2 \<Longrightarrow> irq_descs t i2 \<noteq> None \<Longrightarrow>
      upcall_port x 0 0 3 t =
        t\<lparr>evtchn_mask := clear_bit_bm 3 (set_bit_bm 3 (evtchn_mask t)),
          evtchn_pending := set_bit_bm 3 (clear_bit_bm 3 (evtchn_pending t)),
          trace := trace t @ [Handle_irq i2],
          current_word_idx := (current_word_idx t) (0 := 0),
          current_bit_idx := (current_bit_idx t) (0 := 4)\<rparr>"
    using h
    by (auto simp: upcall_port_def Let_def clear_evtchn_def mask_evtchn_def irq_to_desc_def
        generic_handle_irq_desc_def BITS_PER_LONG_def)
  have s1: "s1 = sA\<lparr>evtchn_mask := clear_bit_bm 3 (set_bit_bm 3 (evtchn_mask sA)),
          evtchn_pending := set_bit_bm 3 (clear_bit_bm 3 (evtchn_pending sA)),
          trace := trace sA @ [Handle_irq i2],
          current_word_idx := (current_word_idx sA) (0 := 0),
          current_bit_idx := (current_bit_idx sA) (0 := 4)\<rparr>"
    unfolding s1_def using irq by (intro port) (simp_all add: sA_def)
  have s2: "s2 = s1\<lparr>evtchn_mask := clear_bit_bm 3 (set_bit_bm 3 (evtchn_mask s1)),
          evtchn_pending := set_bit_bm 3 (clear_bit_bm 3 (evtchn_pending s1)),
          trace := trace s1 @ [Handle_irq i2],
          current_word_idx := (current_word_idx s1) (0 := 0),
          current_bit_idx := (current_bit_idx s1) (0 := 4)\<rparr>"
    unfolding s2_def using irq by (intro port) (simp_all add: s1 sA_def)
  have actA: "active_evtchns 0 sA 0 = 8"
    using pend mask cpum by (simp add: active_evtchns_def sA_def)
  have act1: "active_evtchns 0 s1 0 = 8"
    using pend mask cpum
    by (simp add: active_evtchns_def s1 sA_def set_bit_bm_def clear_bit_bm_def
        BITS_PER_LONG_def)
  have bitsA: "upcall_bits_loop x 0 0 8 3 sA = s1"
    by (simp add: upcall_bits_loop_step upcall_bits_loop_done mask_facts8 ffs_facts
        BITS_PER_LONG_def s1_def)
  have bits1: "upcall_bits_loop x 0 0 8 0 s1 = s2"
    by (simp add: upcall_bits_loop_step upcall_bits_loop_done mask_facts8 ffs_facts
        BITS_PER_LONG_def s2_def)
  have w1: "upcall_words_loop x 0 0 3 0 0 1 sA = upcall_words_loop x 0 0 3 1 1 1 s1"
    by (subst upcall_words_loop_visit)
       (simp_all add: mask_facts ffs_facts actA bitsA BITS_PER_LONG_def)
  have w2: "upcall_words_loop x 0 0 3 1 1 1 s1 = upcall_words_loop x 0 0 3 2 0 1 s1"
    by (subst upcall_words_loop_wrap)
       (simp_all add: mask_facts numeral_2_eq_2 [symmetric])
  have w3: "upcall_words_loop x 0 0 3 2 0 1 s1 = upcall_words_loop x 0 0 3 3 1 0 s2"
    by (subst upcall_words_loop_visit)
       (simp_all add: mask_facts ffs_facts act1 bits1 BITS_PER_LONG_def)
  have words: "upcall_words_loop x 0 0 3 0 0 1 sA = s2"
    by (simp only: w1 w2 w3 upcall_words_loop_done)
  have fin: "irqs_disabled s2" "xed_nesting_count s2 0 = 1"
    "evtchn_upcall_pending (xen_vcpu s2 0) = 0"
    using irqs by (simp_all add: s2 s1 sA_def)
  have "uu_xen_evtchn_do_upcall x 0 s =
          Some (Inr (s2\<lparr>xed_nesting_count := (xed_nesting_count s2) (0 := 0)\<rparr>))"
    apply (subst uu_xen_evtchn_do_upcall.simps)
    using sel cur nest words [unfolded sA_def, simplified] fin
    apply (simp add: Let_def)
    done
  then show ?thesis
    by (simp add: s2 s1 sA_def)
qed

text \<open>
  C1 says that on the second visit of the starting word the bits at positions
  \<open>\<ge> start_bit_idx\<close> are masked out of the pending bits, so that no port of the word is
  handed over twice in one upcall. The source applies the mask \<open>(1UL << start_bit_idx) - 1\<close>
  to \<open>bit_idx\<close>, which is 0 at that point, and scans the whole word as
  \<open>active_evtchns\<close> reads it then (lemma \<open>upcall_words_loop_visit\<close>). On
  \<open>rescan_state\<close> the upcall starts at \<open>(0, 3)\<close>, hands over port 3, wraps, visits word
  0 again and hands over port 3 a second time, at bit 3 \<open>\<ge> start_bit_idx\<close>.
\<close>

theorem upcall_second_visit_rescans:
  "current_word_idx rescan_state 0 = 0 \<and> current_bit_idx rescan_state 0 = 3 \<and>
   evtchn_pending rescan_state 0 = 8 \<and> evtchn_to_irq rescan_state 3 = 102 \<and>
   map_option (map_sum id trace) (uu_xen_evtchn_do_upcall rescan_ext 0 rescan_state) =
     Some (Inr [Handle_irq 102, Handle_irq 102])"
proof -
  have pre: "evtchn_pending rescan_state 0 = 8" "evtchn_mask rescan_state 0 = 0"
    "cpu_evtchn_mask rescan_state 0 0 = - 1"
    "evtchn_pending_sel (xen_vcpu rescan_state 0) = 1"
    "current_word_idx rescan_state 0 = 0" "current_bit_idx rescan_state 0 = 3"
    "xed_nesting_count rescan_state 0 = 0" "irqs_disabled rescan_state"
    "evtchn_to_irq rescan_state 3 = int 102" "irq_descs rescan_state 102 \<noteq> None"
    "handle_irq rescan_ext =
       (\<lambda>irq s. s\<lparr>evtchn_mask := clear_bit_bm 3 (evtchn_mask s),
                   evtchn_pending := set_bit_bm 3 (evtchn_pending s)\<rparr>)"
    by (simp_all add: rescan_state_def rescan_ext_def example_state_def)
  have "trace rescan_state = []"
    by (simp add: rescan_state_def example_state_def)
  with upcall_rescan [OF pre] pre show ?thesis
    by auto
qed


end
